theory Spec2Isabelle
  imports Main
begin

section \<open>Values shared by the three controllers\<close>

text \<open>
  The operator's controllers (APIServer, Monitor, Compliance) are Go functions over a
  Kubernetes client and a status manager. The embedding makes both explicit: every answer
  the client, the certificate manager or a helper of package \<open>utils\<close> gives is a field of
  an environment record, and every call that reads or changes something outside the
  reconciler is an event of the trace that \<open>Reconcile\<close> returns next to its result.
\<close>

text \<open>Go errors: \<open>errors.IsNotFound\<close> tells the two kinds apart, \<open>Error\<close> is the message.\<close>

datatype error = NotFoundError string | OtherError string

fun IsNotFound :: "error \<Rightarrow> bool" where
  "IsNotFound (NotFoundError m) = True"
| "IsNotFound (OtherError m) = False"

fun Error :: "error \<Rightarrow> string" where
  "Error (NotFoundError m) = m"
| "Error (OtherError m) = m"

text \<open>\<open>reconcile.Result\<close>; \<open>RequeueAfter\<close> is a \<open>time.Duration\<close>, counted in nanoseconds.\<close>

record Result =
  Requeue :: bool
  RequeueAfter :: int

definition Second :: int where
  "Second = 1000000000"

definition EmptyResult :: Result where
  "EmptyResult = \<lparr>Requeue = False, RequeueAfter = 0\<rparr>"

definition RequeueAfterSeconds :: "int \<Rightarrow> Result" where
  "RequeueAfterSeconds n = \<lparr>Requeue = False, RequeueAfter = n * Second\<rparr>"

text \<open>How a call of \<open>Reconcile\<close> ends: it returns \<open>(Result, error)\<close>, or a nil dereference panics.\<close>

datatype exit = Return Result "error option" | Panic

text \<open>\<open>reconcile.Request\<close> (a \<open>types.NamespacedName\<close>).\<close>

record Request =
  reqNamespace :: string
  reqName :: string

text \<open>\<open>metav1.Condition\<close> without its \<open>LastTransitionTime\<close> (wall-clock time is not modelled).\<close>

record Condition =
  condType :: string
  condStatus :: string
  condObservedGeneration :: int
  condReason :: string
  condMessage :: string

datatype StatusConditionType = ComponentAvailable | ComponentProgressing | ComponentDegraded

record TigeraStatusCondition =
  tscType :: StatusConditionType
  tscStatus :: string
  tscReason :: string
  tscMessage :: string
  tscObservedGeneration :: int

record TigeraStatus =
  tsName :: string
  tsConditions :: "TigeraStatusCondition list"

text \<open>
  The primary custom resources \<open>operatorv1.APIServer\<close>, \<open>operatorv1.Monitor\<close> and
  \<open>operatorv1.Compliance\<close>: the fields the reconcilers read or write
  (\<open>ObjectMeta.Name\<close>, \<open>ObjectMeta.Generation\<close>, \<open>Status.State\<close>, \<open>Status.Conditions\<close>).
\<close>

record PrimaryCR =
  crName :: string
  crGeneration :: int
  crState :: string
  crConditions :: "Condition list"

text \<open>
  A Kubernetes object as the client stores it; a \<open>corev1.Secret\<close> has kind \<open>Secret\<close>.
  \<open>Data\<close> is a Go map from keys to byte strings, written as the list of its entries.
\<close>

record Object =
  objKind :: string
  objNamespace :: string
  objName :: string
  objData :: "(string \<times> string) list"

text \<open>
  \<open>reflect.DeepEqual\<close> on two such maps, one of them not empty: the same keys with the
  same values, in whatever order the entries are written.
\<close>

definition DeepEqual :: "(string \<times> string) list \<Rightarrow> (string \<times> string) list \<Rightarrow> bool" where
  "DeepEqual a b = list_all (\<lambda>key. map_of a key = map_of b key) (map fst a @ map fst b)"

record InstallationSpec =
  instVariant :: string
  instRegistry :: string

record KeyPair =
  kpName :: string
  kpUseCertificateManagement :: bool
  kpData :: "(string \<times> string) list"

type_synonym Certificate = string

type_synonym TrustedBundle = "Certificate option list"

record CertificateManager =
  cmKeyPair :: KeyPair

record ManagementCluster =
  mcAddr :: string

text \<open>\<open>ManagementClusterConnection\<close> as declared in package \<open>v1\<close>.\<close>

record ManagementClusterConnection =
  mccManagementClusterAddr :: string
  mccConditions :: "Condition list"

record AmazonCloudIntegration =
  aciName :: string

record Authentication =
  authState :: string

type_synonym KeyValidatorConfig = string

record LicenseKey =
  licFeatures :: "string list"

subsection \<open>Constants of other packages\<close>

text \<open>
  \<open>TigeraStatusReason\<close> values and the product variants are string constants of package
  \<open>operatorv1\<close>; each is the string of its own name.
\<close>

definition ResourceReadError :: string where "ResourceReadError = ''ResourceReadError''"
definition ResourceNotFound :: string where "ResourceNotFound = ''ResourceNotFound''"
definition ResourceNotReady :: string where "ResourceNotReady = ''ResourceNotReady''"
definition ResourceCreateError :: string where "ResourceCreateError = ''ResourceCreateError''"
definition ResourceUpdateError :: string where "ResourceUpdateError = ''ResourceUpdateError''"
definition ResourceValidationError :: string where "ResourceValidationError = ''ResourceValidationError''"
definition ResourceRenderingError :: string where "ResourceRenderingError = ''ResourceRenderingError''"
definition TigeraStatusReady :: string where "TigeraStatusReady = ''Ready''"
definition TigeraSecureEnterprise :: string where "TigeraSecureEnterprise = ''TigeraSecureEnterprise''"
definition ProviderOpenShift :: string where "ProviderOpenShift = ''OpenShift''"

text \<open>
  The two namespaces the Alertmanager secret moves between, as the comments of
  \<open>readAlertmanagerConfigSecret\<close> name them.
\<close>

definition OperatorNamespace :: string where "OperatorNamespace = ''tigera-operator''"
definition TigeraPrometheusNamespace :: string where "TigeraPrometheusNamespace = ''tigera-prometheus''"

text \<open>
  The remaining names are constants and functions of packages \<open>render\<close>, \<open>monitor\<close>,
  \<open>rmeta\<close>, \<open>dns\<close>, \<open>esmetrics\<close>, \<open>relasticsearch\<close>, \<open>networkpolicy\<close> and
  \<open>certificatemanagement\<close> whose declarations are outside the source at hand. They only
  label calls and configuration fields, so the model keeps each one symbolic: the string
  is the qualified Go identifier, and a function application lists its arguments.
\<close>

definition APIServerNamespace :: "string \<Rightarrow> string" where
  "APIServerNamespace v = ''rmeta.APIServerNamespace('' @ v @ '')''"
definition ProjectCalicoApiServerTLSSecretName :: "string \<Rightarrow> string" where
  "ProjectCalicoApiServerTLSSecretName v = ''render.ProjectCalicoApiServerTLSSecretName('' @ v @ '')''"
definition ProjectCalicoApiServerServiceName :: "string \<Rightarrow> string" where
  "ProjectCalicoApiServerServiceName v = ''render.ProjectCalicoApiServerServiceName('' @ v @ '')''"
definition ApiServerServiceAccountName :: "string \<Rightarrow> string" where
  "ApiServerServiceAccountName v = ''render.ApiServerServiceAccountName('' @ v @ '')''"
definition GetServiceDNSNames :: "string \<Rightarrow> string \<Rightarrow> string \<Rightarrow> string list" where
  "GetServiceDNSNames svc ns clusterDomain = [''dns.GetServiceDNSNames'', svc, ns, clusterDomain]"
definition VoltronTunnelSecretName :: string where "VoltronTunnelSecretName = ''render.VoltronTunnelSecretName''"
definition PacketCaptureCertSecret :: string where "PacketCaptureCertSecret = ''render.PacketCaptureCertSecret''"
definition PacketCaptureServiceName :: string where "PacketCaptureServiceName = ''render.PacketCaptureServiceName''"
definition PacketCaptureNamespace :: string where "PacketCaptureNamespace = ''render.PacketCaptureNamespace''"
definition PacketCaptureServiceAccountName :: string where
  "PacketCaptureServiceAccountName = ''render.PacketCaptureServiceAccountName''"
definition TigeraComponentTierName :: string where
  "TigeraComponentTierName = ''networkpolicy.TigeraComponentTierName''"
definition AlertmanagerConfigSecret :: string where
  "AlertmanagerConfigSecret = ''monitor.AlertmanagerConfigSecret''"
definition PrometheusTLSSecretName :: string where
  "PrometheusTLSSecretName = ''monitor.PrometheusTLSSecretName''"
definition PrometheusClientTLSSecretName :: string where
  "PrometheusClientTLSSecretName = ''monitor.PrometheusClientTLSSecretName''"
definition PrometheusHTTPAPIServiceName :: string where
  "PrometheusHTTPAPIServiceName = ''monitor.PrometheusHTTPAPIServiceName''"
definition PrometheusServiceAccountName :: string where
  "PrometheusServiceAccountName = ''monitor.PrometheusServiceAccountName''"
definition NodePrometheusTLSServerSecret :: string where
  "NodePrometheusTLSServerSecret = ''render.NodePrometheusTLSServerSecret''"
definition ElasticsearchMetricsServerTLSSecret :: string where
  "ElasticsearchMetricsServerTLSSecret = ''esmetrics.ElasticsearchMetricsServerTLSSecret''"
definition FluentdPrometheusTLSSecretName :: string where
  "FluentdPrometheusTLSSecretName = ''render.FluentdPrometheusTLSSecretName''"
definition ElasticsearchComplianceBenchmarkerUserSecret :: string where
  "ElasticsearchComplianceBenchmarkerUserSecret = ''render.ElasticsearchComplianceBenchmarkerUserSecret''"
definition ElasticsearchComplianceControllerUserSecret :: string where
  "ElasticsearchComplianceControllerUserSecret = ''render.ElasticsearchComplianceControllerUserSecret''"
definition ElasticsearchComplianceReporterUserSecret :: string where
  "ElasticsearchComplianceReporterUserSecret = ''render.ElasticsearchComplianceReporterUserSecret''"
definition ElasticsearchComplianceSnapshotterUserSecret :: string where
  "ElasticsearchComplianceSnapshotterUserSecret = ''render.ElasticsearchComplianceSnapshotterUserSecret''"
definition ElasticsearchComplianceServerUserSecret :: string where
  "ElasticsearchComplianceServerUserSecret = ''render.ElasticsearchComplianceServerUserSecret''"
definition ManagerInternalTLSSecretName :: string where
  "ManagerInternalTLSSecretName = ''render.ManagerInternalTLSSecretName''"
definition PublicCertSecret :: string where "PublicCertSecret = ''relasticsearch.PublicCertSecret''"
definition ComplianceServerCertSecret :: string where
  "ComplianceServerCertSecret = ''render.ComplianceServerCertSecret''"
definition ComplianceServiceName :: string where "ComplianceServiceName = ''render.ComplianceServiceName''"
definition ComplianceNamespace :: string where "ComplianceNamespace = ''render.ComplianceNamespace''"
definition ComplianceServerSAName :: string where "ComplianceServerSAName = ''render.ComplianceServerSAName''"

subsection \<open>Rendered components\<close>

text \<open>
  The renderers (\<open>render.APIServer\<close>, \<open>render.PacketCaptureAPI\<close>, \<open>monitor.Monitor\<close>,
  \<open>render.Compliance\<close>, \<open>rcertificatemanagement.CertificateManagement\<close>,
  \<open>render.NewPassthrough\<close>) are outside the source at hand. A component is the renderer's
  name together with the configuration value the reconciler builds for it.
\<close>

record APIServerConfiguration =
  ascK8SServiceEndpoint :: string
  ascInstallation :: InstallationSpec
  ascForceHostNetwork :: bool
  ascManagementCluster :: "ManagementCluster option"
  ascManagementClusterConnection :: "ManagementClusterConnection option"
  ascAmazonCloudIntegration :: "AmazonCloudIntegration option"
  ascTLSKeyPair :: KeyPair
  ascPullSecrets :: "Object list"
  ascOpenshift :: bool
  ascTunnelCASecret :: "KeyPair option"

text \<open>A \<open>KeyPairOption\<close>: the key pair (possibly nil) and the two flags of \<open>NewKeyPairOption\<close>.\<close>

type_synonym KeyPairOption = "KeyPair option \<times> bool \<times> bool"

record CertificateManagementConfig =
  cmcNamespace :: string
  cmcServiceAccounts :: "string list"
  cmcKeyPairOptions :: "KeyPairOption list"
  cmcTrustedBundle :: "TrustedBundle option"

record PacketCaptureApiConfiguration =
  pcPullSecrets :: "Object list"
  pcOpenshift :: bool
  pcInstallation :: InstallationSpec
  pcKeyValidatorConfig :: "KeyValidatorConfig option"
  pcServerCertSecret :: KeyPair
  pcClusterDomain :: string

record MonitorConfig =
  mcfInstallation :: InstallationSpec
  mcfPullSecrets :: "Object list"
  mcfAlertmanagerConfigSecret :: Object
  mcfKeyValidatorConfig :: "KeyValidatorConfig option"
  mcfServerTLSSecret :: KeyPair
  mcfClientTLSSecret :: KeyPair
  mcfClusterDomain :: string
  mcfTrustedCertBundle :: TrustedBundle
  mcfOpenshift :: bool
  mcfIncludeV3NetworkPolicy :: bool

record ComplianceConfiguration =
  ccESSecrets :: "Object list"
  ccTrustedBundle :: TrustedBundle
  ccInstallation :: InstallationSpec
  ccComplianceServerCertSecret :: "KeyPair option"
  ccESClusterConfig :: string
  ccPullSecrets :: "Object list"
  ccOpenshift :: bool
  ccManagementCluster :: "ManagementCluster option"
  ccManagementClusterConnection :: "ManagementClusterConnection option"
  ccKeyValidatorConfig :: "KeyValidatorConfig option"
  ccClusterDomain :: string
  ccHasNoLicense :: bool
  ccUsePSP :: bool

datatype Component =
    APIServerComponent APIServerConfiguration
  | PacketCaptureAPIComponent PacketCaptureApiConfiguration
  | MonitorComponent MonitorConfig
  | ComplianceComponent ComplianceConfiguration
  | CertificateManagementComponent CertificateManagementConfig
  | Passthrough "Object list"

subsection \<open>The trace of a reconcile\<close>

text \<open>The calls that read from the cluster or from a helper; each is logged when it is made.\<close>

datatype call =
    GetPrimary string
  | GetTigeraStatus string
  | GetInstallation
  | CertificateManagerCreate
  | GetOrCreateKeyPair string
  | GetKeyPair string
  | NewKeyPair
  | GetCertificate string
  | GetNetworkingPullSecrets
  | GetManagementCluster
  | GetManagementClusterConnection
  | GetAmazonCloudIntegration
  | GetK8sServiceEndPoint
  | GetAuthentication
  | GetKeyValidatorConfig
  | ApplyImageSet
  | IsV3NetworkPolicyReconcilable
  | GetTier string
  | GetSecret string string
  | IsAPIServerReady
  | FetchLicenseKey
  | GetElasticsearchClusterConfig
  | ElasticsearchSecrets "string list"

text \<open>
  The status manager's methods, the writes of the client (with the error they returned) and
  \<open>handler.CreateOrUpdateOrDelete\<close> on a component.
\<close>

datatype event =
    Fetch call
  | OnCRNotFound
  | OnCRFound
  | SetDegraded string string
  | ClearDegraded
  | ReadyToMonitor
  | SetMetaData string int
  | AddToStatusManager string
  | StatusUpdate PrimaryCR "error option"
  | Create Object "error option"
  | CreateOrUpdateOrDelete Component "error option"

type_synonym run = "event list \<times> exit"

text \<open>\<open>emit e k\<close>: the call \<open>e\<close> happens, then the rest of the function \<open>k\<close> runs.\<close>

definition emit :: "event \<Rightarrow> run \<Rightarrow> run" where
  "emit e k = (e # fst k, snd k)"

definition return :: "Result \<Rightarrow> error option \<Rightarrow> run" where
  "return res err = ([], Return res err)"

definition panic :: run where
  "panic = ([], Panic)"

text \<open>A \<open>defer\<close>red call runs when the function returns, whichever return that is.\<close>

definition deferred :: "event \<Rightarrow> run \<Rightarrow> run" where
  "deferred e k = (fst k @ [e], snd k)"

text \<open>
  The method \<open>SetDegraded\<close> of \<open>ReconcileAPIServer\<close> and of \<open>ReconcileCompliance\<close> (the two
  bodies are the same): it logs and calls the status manager with the formatted message.
\<close>

definition Reconciler_SetDegraded :: "string \<Rightarrow> string \<Rightarrow> error option \<Rightarrow> event" where
  "Reconciler_SetDegraded reason message err =
     (let errormsg = (case err of None \<Rightarrow> '''' | Some e \<Rightarrow> Error e)
      in SetDegraded reason (message @ '' - Error: '' @ errormsg))"

text \<open>
  Modelled from the spec: \<open>status.SetDegraded\<close>, the helper of package \<open>status\<close> that the
  Monitor controller calls with the status manager as first argument. Its body is outside
  the source at hand; it sets the degraded status with the given reason, like the two
  methods above.
\<close>

definition status_SetDegraded :: "string \<Rightarrow> string \<Rightarrow> error option \<Rightarrow> event" where
  "status_SetDegraded reason message err = Reconciler_SetDegraded reason message err"

text \<open>
  The apply loop \<open>for _, component := range components\<close>: each component goes to
  \<open>CreateOrUpdateOrDelete\<close>; the first error sets the degraded status and returns it.
\<close>

fun ApplyComponents :: "(Component \<Rightarrow> error option) \<Rightarrow> (error \<Rightarrow> event) \<Rightarrow> Component list \<Rightarrow> run \<Rightarrow> run" where
  "ApplyComponents apply onError [] k = k"
| "ApplyComponents apply onError (c # cs) k =
     (case apply c of
        Some err \<Rightarrow>
          emit (CreateOrUpdateOrDelete c (Some err))
            (emit (onError err) (return EmptyResult (Some err)))
      | None \<Rightarrow> emit (CreateOrUpdateOrDelete c None) (ApplyComponents apply onError cs k))"

section \<open>The APIServer controller\<close>

text \<open>The fields of \<open>ReconcileAPIServer\<close> other than the client, the scheme and the status manager.\<close>

record ReconcileAPIServer =
  rasProvider :: string
  rasAmazonCRDExists :: bool
  rasEnterpriseCRDsExist :: bool
  rasClusterDomain :: string

text \<open>
  What the cluster and the helpers answer during one reconcile of the APIServer controller.
  A Go call returning \<open>(value, err)\<close> is a sum when the value is only used after
  \<open>err == nil\<close>, and a pair when the code looks at both.
\<close>

record apiserver_env =
  asGetAPIServer :: "(error \<times> string) + PrimaryCR"
  asGetTigeraStatus :: "error + TigeraStatus"
  asStatusUpdate :: "PrimaryCR \<Rightarrow> error option"
  asGetInstallation :: "error + (string \<times> InstallationSpec)"
  asCertificateManagerCreate :: "error + CertificateManager"
  asGetOrCreateKeyPair :: "string \<Rightarrow> error + KeyPair"
  asGetNetworkingPullSecrets :: "error + Object list"
  asGetManagementCluster :: "error + ManagementCluster option"
  asGetManagementClusterConnection :: "error + ManagementClusterConnection option"
  asGetKeyPair :: "KeyPair option \<times> error option"
  asNewKeyPair :: "KeyPair option \<times> error option"
  asGetAmazonCloudIntegration :: "AmazonCloudIntegration option \<times> error option"
  asGetK8sServiceEndPoint :: "error + string"
  asRenderAPIServer :: "APIServerConfiguration \<Rightarrow> error option"
  asGetAuthentication :: "Authentication option \<times> error option"
  asGetKeyValidatorConfig :: "Authentication option \<Rightarrow> error + KeyValidatorConfig option"
  asApplyImageSet :: "Component list \<Rightarrow> error option"
  asCreateOrUpdateOrDelete :: "Component \<Rightarrow> error option"
  asIsAvailable :: bool

definition APIServer_ResourceName :: string where
  "APIServer_ResourceName = ''apiserver''"

text \<open>\<open>KeyPairInterface.Secret(namespace)\<close>: the key pair as a Secret object of that namespace.\<close>

definition KeyPair_Secret :: "KeyPair \<Rightarrow> string \<Rightarrow> Object" where
  "KeyPair_Secret kp ns = \<lparr>objKind = ''Secret'', objNamespace = ns, objName = kpName kp, objData = kpData kp\<rparr>"

text \<open>
  Modelled from the spec: \<open>status.UpdateStatusCondition\<close> with three arguments, as the
  APIServer controller calls it; the function is in package \<open>status\<close>, outside the source
  at hand. Each TigeraStatus condition becomes a \<open>metav1.Condition\<close>: \<open>Available\<close> is
  mapped to type \<open>Ready\<close>, \<open>Progressing\<close> to \<open>Progressing\<close>, \<open>Degraded\<close> to \<open>Degraded\<close>,
  status, reason and message are copied, and \<open>ObservedGeneration\<close> is the generation passed
  in. The condition replaces the one of the same type or is appended.
\<close>

fun conditionTypeName :: "StatusConditionType \<Rightarrow> string" where
  "conditionTypeName ComponentAvailable = ''Ready''"
| "conditionTypeName ComponentProgressing = ''Progressing''"
| "conditionTypeName ComponentDegraded = ''Degraded''"

definition toCondition :: "int \<Rightarrow> TigeraStatusCondition \<Rightarrow> Condition" where
  "toCondition generation c =
     \<lparr>condType = conditionTypeName (tscType c), condStatus = tscStatus c,
      condObservedGeneration = generation, condReason = tscReason c, condMessage = tscMessage c\<rparr>"

fun setCondition :: "Condition \<Rightarrow> Condition list \<Rightarrow> Condition list" where
  "setCondition n [] = [n]"
| "setCondition n (c # cs) = (if condType c = condType n then n # cs else c # setCondition n cs)"

fun UpdateStatusCondition :: "Condition list \<Rightarrow> TigeraStatusCondition list \<Rightarrow> int \<Rightarrow> Condition list" where
  "UpdateStatusCondition statuscondition [] generation = statuscondition"
| "UpdateStatusCondition statuscondition (c # cs) generation =
     UpdateStatusCondition (setCondition (toCondition generation c) statuscondition) cs generation"

text \<open>
  Lines 191 to 204: the request for the TigeraStatus of this controller. The conditions are
  copied into the custom resource, the status subresource is updated, and \<open>Reconcile\<close>
  returns on every path.
\<close>

definition APIServer_statusConditions :: "apiserver_env \<Rightarrow> PrimaryCR \<Rightarrow> run" where
  "APIServer_statusConditions env instance =
     emit (Fetch (GetTigeraStatus APIServer_ResourceName))
       (case asGetTigeraStatus env of
          Inl err \<Rightarrow> return EmptyResult (Some err)
        | Inr ts \<Rightarrow>
            (let instance' = instance\<lparr>crConditions :=
                   UpdateStatusCondition (crConditions instance) (tsConditions ts) (crGeneration instance)\<rparr>
             in case asStatusUpdate env instance' of
                  Some err \<Rightarrow> emit (StatusUpdate instance' (Some err)) (return EmptyResult (Some err))
                | None \<Rightarrow> emit (StatusUpdate instance' None) (return EmptyResult None)))"

text \<open>
  Lines 250 to 293: the enterprise-only data. The continuation receives the management
  cluster, the connection, the tunnel CA secret, the passthrough component of a newly made
  tunnel secret, and the Amazon cloud integration.
\<close>

definition APIServer_amazon ::
  "ReconcileAPIServer \<Rightarrow> apiserver_env \<Rightarrow> (AmazonCloudIntegration option \<Rightarrow> run) \<Rightarrow> run" where
  "APIServer_amazon r env k =
     (if rasAmazonCRDExists r then
        emit (Fetch GetAmazonCloudIntegration)
          (case snd (asGetAmazonCloudIntegration env) of
             Some err \<Rightarrow>
               if IsNotFound err then k None
               else emit (Reconciler_SetDegraded ResourceReadError ''Error reading AmazonCloudIntegration'' (Some err))
                      (return EmptyResult (Some err))
           | None \<Rightarrow> k (fst (asGetAmazonCloudIntegration env)))
      else k None)"

text \<open>
  Lines 269 to 282. \<open>NewKeyPair\<close> overwrites both the key pair and the error; the new key
  pair is dereferenced (\<open>tunnelCASecret.Secret\<close>) before the error is looked at.
\<close>

definition APIServer_tunnelSecret ::
  "apiserver_env \<Rightarrow> ManagementCluster option \<Rightarrow> (KeyPair option \<Rightarrow> Component option \<Rightarrow> run) \<Rightarrow> run" where
  "APIServer_tunnelSecret env managementCluster k =
     (if managementCluster \<noteq> None then
        emit (Fetch (GetKeyPair VoltronTunnelSecretName))
          (case fst (asGetKeyPair env) of
             None \<Rightarrow>
               emit (Fetch NewKeyPair)
                 (case fst (asNewKeyPair env) of
                    None \<Rightarrow> panic
                  | Some kp \<Rightarrow>
                      (case snd (asNewKeyPair env) of
                         Some err \<Rightarrow>
                           emit (Reconciler_SetDegraded ResourceCreateError ''Unable to get or create the tunnel secret'' (Some err))
                             (return EmptyResult (Some err))
                       | None \<Rightarrow> k (Some kp) (Some (Passthrough [KeyPair_Secret kp OperatorNamespace]))))
           | Some kp \<Rightarrow>
               (case snd (asGetKeyPair env) of
                  Some err \<Rightarrow>
                    emit (Reconciler_SetDegraded ResourceCreateError ''Unable to get or create the tunnel secret'' (Some err))
                      (return EmptyResult (Some err))
                | None \<Rightarrow> k (Some kp) None))
      else k None None)"

definition APIServer_enterpriseData ::
  "ReconcileAPIServer \<Rightarrow> apiserver_env \<Rightarrow> string \<Rightarrow>
   (ManagementCluster option \<Rightarrow> ManagementClusterConnection option \<Rightarrow> KeyPair option \<Rightarrow> Component option \<Rightarrow>
      AmazonCloudIntegration option \<Rightarrow> run) \<Rightarrow> run" where
  "APIServer_enterpriseData r env variant k =
     (if variant = TigeraSecureEnterprise then
        emit (Fetch GetManagementCluster)
          (case asGetManagementCluster env of
             Inl err \<Rightarrow>
               emit (Reconciler_SetDegraded ResourceReadError ''Error reading ManagementCluster'' (Some err))
                 (return EmptyResult (Some err))
           | Inr managementCluster \<Rightarrow>
               emit (Fetch GetManagementClusterConnection)
                 (case asGetManagementClusterConnection env of
                    Inl err \<Rightarrow>
                      emit (Reconciler_SetDegraded ResourceReadError ''Error reading ManagementClusterConnection'' (Some err))
                        (return EmptyResult (Some err))
                  | Inr managementClusterConnection \<Rightarrow>
                      if managementClusterConnection \<noteq> None \<and> managementCluster \<noteq> None then
                        (let err = OtherError ''having both a ManagementCluster and a ManagementClusterConnection is not supported''
                         in emit (Reconciler_SetDegraded ResourceValidationError [] (Some err))
                              (return EmptyResult (Some err)))
                      else
                        APIServer_tunnelSecret env managementCluster (\<lambda>tunnelCASecret tunnelSecretPassthrough.
                          APIServer_amazon r env (\<lambda>amazon.
                            k managementCluster managementClusterConnection tunnelCASecret tunnelSecretPassthrough amazon))))
      else k None None None None None)"

text \<open>
  Lines 339 to 382: the packet capture API, rendered for the enterprise variant only. The
  continuation receives the component list with the two components appended.
\<close>

definition APIServer_packetCapture ::
  "ReconcileAPIServer \<Rightarrow> apiserver_env \<Rightarrow> string \<Rightarrow> InstallationSpec \<Rightarrow> Object list \<Rightarrow> Component list \<Rightarrow>
   (Component list \<Rightarrow> run) \<Rightarrow> run" where
  "APIServer_packetCapture r env variant network pullSecrets components k =
     (if variant = TigeraSecureEnterprise then
        emit (Fetch (GetOrCreateKeyPair PacketCaptureCertSecret))
          (case asGetOrCreateKeyPair env PacketCaptureCertSecret of
             Inl err \<Rightarrow>
               emit (Reconciler_SetDegraded ResourceReadError ''Error retrieve or creating packet capture TLS certificate'' (Some err))
                 (return EmptyResult (Some err))
           | Inr packetCaptureCertSecret \<Rightarrow>
               emit (Fetch GetAuthentication)
                 (let authenticationCR = fst (asGetAuthentication env); err = snd (asGetAuthentication env)
                  in if err \<noteq> None \<and> \<not> IsNotFound (the err) then
                       emit (Reconciler_SetDegraded ResourceNotFound ''Error querying Authentication'' err)
                         (return EmptyResult err)
                     else
                       emit (Fetch GetKeyValidatorConfig)
                         (case asGetKeyValidatorConfig env authenticationCR of
                            Inl err \<Rightarrow>
                              emit (Reconciler_SetDegraded ResourceUpdateError ''Failed to process the authentication CR.'' (Some err))
                                (return EmptyResult (Some err))
                          | Inr keyValidatorConfig \<Rightarrow>
                              (let packetCaptureApiCfg =
                                     \<lparr>pcPullSecrets = pullSecrets,
                                      pcOpenshift = (rasProvider r = ProviderOpenShift),
                                      pcInstallation = network,
                                      pcKeyValidatorConfig = keyValidatorConfig,
                                      pcServerCertSecret = packetCaptureCertSecret,
                                      pcClusterDomain = rasClusterDomain r\<rparr>;
                                   pc = PacketCaptureAPIComponent packetCaptureApiCfg
                               in emit (AddToStatusManager PacketCaptureNamespace)
                                    (k (components @
                                        [pc,
                                         CertificateManagementComponent
                                           \<lparr>cmcNamespace = PacketCaptureNamespace,
                                            cmcServiceAccounts = [PacketCaptureServiceAccountName],
                                            cmcKeyPairOptions = [(Some packetCaptureCertSecret, True, True)],
                                            cmcTrustedBundle = None\<rparr>]))))))
      else k components)"

text \<open>Lines 395 to 409: after the apply loop.\<close>

definition APIServer_finish :: "apiserver_env \<Rightarrow> PrimaryCR \<Rightarrow> run" where
  "APIServer_finish env instance =
     emit ClearDegraded
       (if \<not> asIsAvailable env then return (RequeueAfterSeconds 30) None
        else
          (let instance' = instance\<lparr>crState := TigeraStatusReady\<rparr>
           in case asStatusUpdate env instance' of
                Some err \<Rightarrow> emit (StatusUpdate instance' (Some err)) (return EmptyResult (Some err))
              | None \<Rightarrow> emit (StatusUpdate instance' None) (return EmptyResult None)))"

text \<open>
  Lines 295 to 394: the service endpoint, rendering, the image set and the apply loop.
  \<open>ApplyImageSet\<close> may rewrite image references inside the components; the model keeps
  the components as they were rendered.
\<close>

definition APIServer_render ::
  "ReconcileAPIServer \<Rightarrow> apiserver_env \<Rightarrow> PrimaryCR \<Rightarrow> string \<Rightarrow> InstallationSpec \<Rightarrow> KeyPair \<Rightarrow> Object list \<Rightarrow>
   ManagementCluster option \<Rightarrow> ManagementClusterConnection option \<Rightarrow> KeyPair option \<Rightarrow> Component option \<Rightarrow>
   AmazonCloudIntegration option \<Rightarrow> run" where
  "APIServer_render r env instance variant network tlsSecret pullSecrets
     managementCluster managementClusterConnection tunnelCASecret tunnelSecretPassthrough amazon =
     emit (Fetch GetK8sServiceEndPoint)
       (case asGetK8sServiceEndPoint env of
          Inl err \<Rightarrow>
            emit (Reconciler_SetDegraded ResourceReadError ''Error reading services endpoint configmap'' (Some err))
              (return EmptyResult (Some err))
        | Inr endpoint \<Rightarrow>
            (let apiServerCfg =
                   \<lparr>ascK8SServiceEndpoint = endpoint,
                    ascInstallation = network,
                    ascForceHostNetwork = False,
                    ascManagementCluster = managementCluster,
                    ascManagementClusterConnection = managementClusterConnection,
                    ascAmazonCloudIntegration = amazon,
                    ascTLSKeyPair = tlsSecret,
                    ascPullSecrets = pullSecrets,
                    ascOpenshift = (rasProvider r = ProviderOpenShift),
                    ascTunnelCASecret = tunnelCASecret\<rparr>
             in case asRenderAPIServer env apiServerCfg of
                  Some err \<Rightarrow>
                    emit (Reconciler_SetDegraded ResourceRenderingError ''Error rendering APIServer'' (Some err))
                      (return EmptyResult (Some err))
                | None \<Rightarrow>
                    (let components0 =
                           [APIServerComponent apiServerCfg,
                            CertificateManagementComponent
                              \<lparr>cmcNamespace = APIServerNamespace variant,
                               cmcServiceAccounts = [ApiServerServiceAccountName variant],
                               cmcKeyPairOptions = [(Some tlsSecret, True, True), (tunnelCASecret, True, True)],
                               cmcTrustedBundle = None\<rparr>];
                         components1 =
                           (case tunnelSecretPassthrough of
                              Some p \<Rightarrow> components0 @ [p]
                            | None \<Rightarrow> components0)
                     in APIServer_packetCapture r env variant network pullSecrets components1 (\<lambda>components.
                          emit (Fetch ApplyImageSet)
                            (case asApplyImageSet env components of
                               Some err \<Rightarrow>
                                 emit (Reconciler_SetDegraded ResourceUpdateError ''Error with images from ImageSet'' (Some err))
                                   (return EmptyResult (Some err))
                             | None \<Rightarrow>
                                 ApplyComponents (asCreateOrUpdateOrDelete env)
                                   (\<lambda>err. Reconciler_SetDegraded ResourceUpdateError ''Error creating / updating resource'' (Some err))
                                   components
                                   (APIServer_finish env instance))))))"

text \<open>\<open>ReconcileAPIServer.Reconcile\<close>, lines 174 to 410.\<close>

definition ReconcileAPIServer_Reconcile :: "ReconcileAPIServer \<Rightarrow> apiserver_env \<Rightarrow> Request \<Rightarrow> run" where
  "ReconcileAPIServer_Reconcile r env request =
     emit (Fetch (GetPrimary ''APIServer''))
       (case asGetAPIServer env of
          Inl (err, msg) \<Rightarrow>
            if IsNotFound err then emit OnCRNotFound (return EmptyResult None)
            else emit (Reconciler_SetDegraded ResourceReadError
                         (''An error occurred when querying the APIServer resource: '' @ msg) (Some err))
                   (return EmptyResult (Some err))
        | Inr instance \<Rightarrow>
            emit OnCRFound
              (if reqName request = APIServer_ResourceName \<and> reqNamespace request = [] then
                 APIServer_statusConditions env instance
               else
                 emit (Fetch GetInstallation)
                   (case asGetInstallation env of
                      Inl err \<Rightarrow>
                        if IsNotFound err then
                          emit (Reconciler_SetDegraded ResourceNotFound ''Installation not found'' (Some err))
                            (return EmptyResult (Some err))
                        else
                          emit (Reconciler_SetDegraded ResourceReadError ''Error querying installation'' (Some err))
                            (return EmptyResult (Some err))
                    | Inr (variant, network) \<Rightarrow>
                        if variant = [] then
                          emit (SetDegraded ResourceNotReady ''Waiting for Installation to be ready'')
                            (return EmptyResult None)
                        else
                          (let ns = APIServerNamespace variant
                           in emit (Fetch CertificateManagerCreate)
                                (case asCertificateManagerCreate env of
                                   Inl err \<Rightarrow>
                                     emit (Reconciler_SetDegraded ResourceCreateError ''Unable to create the Tigera CA'' (Some err))
                                       (return EmptyResult (Some err))
                                 | Inr certificateManager \<Rightarrow>
                                     (let secretName = ProjectCalicoApiServerTLSSecretName (instVariant network)
                                      in emit (Fetch (GetOrCreateKeyPair secretName))
                                           (case asGetOrCreateKeyPair env secretName of
                                              Inl err \<Rightarrow>
                                                emit (Reconciler_SetDegraded ResourceCreateError ''Unable to get or create tls key pair'' (Some err))
                                                  (return EmptyResult (Some err))
                                            | Inr tlsSecret \<Rightarrow>
                                                emit (AddToStatusManager ns)
                                                  (emit (Fetch GetNetworkingPullSecrets)
                                                     (case asGetNetworkingPullSecrets env of
                                                        Inl err \<Rightarrow>
                                                          emit (Reconciler_SetDegraded ResourceReadError ''Error retrieving pull secrets'' (Some err))
                                                            (return EmptyResult (Some err))
                                                      | Inr pullSecrets \<Rightarrow>
                                                          APIServer_enterpriseData r env variant
                                                            (APIServer_render r env instance variant network tlsSecret pullSecrets))))))))))"

section \<open>The Monitor controller\<close>

text \<open>
  The fields of \<open>ReconcileMonitor\<close>. A \<open>ReadyFlag\<close> is set by a goroutine started in \<open>Add\<close>;
  the record holds what \<open>IsReady()\<close> answers during this reconcile.
\<close>

record ReconcileMonitor =
  rmProvider :: string
  rmPrometheusReady :: bool
  rmTierWatchReady :: bool
  rmPolicyWatchesReady :: bool
  rmClusterDomain :: string

text \<open>
  The answers of the cluster and the helpers; \<open>mAlertmanagerConfig\<close> is the embedded file
  \<open>alertmanager-config.yaml\<close>.
\<close>

record monitor_env =
  mGetMonitor :: "error + PrimaryCR"
  mGetTigeraStatus :: "error + TigeraStatus"
  mStatusUpdate :: "PrimaryCR \<Rightarrow> error option"
  mGetInstallation :: "error + (string \<times> InstallationSpec)"
  mGetNetworkingPullSecrets :: "error + Object list"
  mCertificateManagerCreate :: "error + CertificateManager"
  mGetOrCreateKeyPair :: "string \<Rightarrow> error + KeyPair"
  mGetCertificate :: "string \<Rightarrow> error + Certificate option"
  mGetAuthentication :: "Authentication option \<times> error option"
  mGetKeyValidatorConfig :: "Authentication option \<Rightarrow> error + KeyValidatorConfig option"
  mGetManagementClusterConnection :: "error + ManagementClusterConnection option"
  mIsV3NetworkPolicyReconcilable :: bool
  mGetTier :: "error option"
  mAlertmanagerConfig :: string
  mGetSecret :: "string \<Rightarrow> string \<Rightarrow> error + Object option"
  mCreate :: "Object \<Rightarrow> error option"
  mApplyImageSet :: "Component list \<Rightarrow> error option"
  mCreateOrUpdateOrDelete :: "Component \<Rightarrow> error option"
  mIsAvailable :: bool

definition Monitor_ResourceName :: string where
  "Monitor_ResourceName = ''monitor''"

text \<open>
  Modelled from the spec: \<open>status.UpdateStatusCondition\<close> with two arguments, as the Monitor
  and the Compliance controller call it; the function is in package \<open>status\<close>, outside the
  source at hand. The custom resource's generation is not among the arguments, so each
  condition keeps the \<open>ObservedGeneration\<close> of the TigeraStatus condition it is made from;
  the type mapping is the one of the three-argument call.
\<close>

fun UpdateStatusCondition2 :: "Condition list \<Rightarrow> TigeraStatusCondition list \<Rightarrow> Condition list" where
  "UpdateStatusCondition2 statuscondition [] = statuscondition"
| "UpdateStatusCondition2 statuscondition (c # cs) =
     UpdateStatusCondition2 (setCondition (toCondition (tscObservedGeneration c) c) statuscondition) cs"

text \<open>
  Modelled from the spec: \<open>rsecret.CopyToNamespace(ns, secret)[0]\<close>, the copy of one secret
  into another namespace (package \<open>secret\<close>, outside the source at hand).
\<close>

definition CopyToNamespace :: "string \<Rightarrow> Object \<Rightarrow> Object" where
  "CopyToNamespace ns secret = secret\<lparr>objNamespace := ns\<rparr>"

text \<open>
  \<open>readAlertmanagerConfigSecret\<close>, lines 444 to 504. The result is the trace of its calls and
  either the error or the secret with the flag \<open>createInOperatorNamespace\<close> (every error
  return of the Go function is \<open>nil, false, err\<close>).
\<close>

definition readAlertmanagerConfigSecret :: "monitor_env \<Rightarrow> event list \<times> (error + Object \<times> bool)" where
  "readAlertmanagerConfigSecret env =
     (let defaultConfigSecret =
            \<lparr>objKind = ''Secret'', objNamespace = OperatorNamespace, objName = AlertmanagerConfigSecret,
             objData = [(''alertmanager.yaml'', mAlertmanagerConfig env)]\<rparr>;
          readOperator = Fetch (GetSecret AlertmanagerConfigSecret OperatorNamespace);
          readPrometheus = Fetch (GetSecret AlertmanagerConfigSecret TigeraPrometheusNamespace)
      in case mGetSecret env AlertmanagerConfigSecret OperatorNamespace of
           Inl err \<Rightarrow> ([readOperator], Inl err)
         | Inr (Some secret) \<Rightarrow> ([readOperator], Inr (secret, False))
         | Inr None \<Rightarrow>
             (case mGetSecret env AlertmanagerConfigSecret TigeraPrometheusNamespace of
                Inl err \<Rightarrow> ([readOperator, readPrometheus], Inl err)
              | Inr (Some secret) \<Rightarrow>
                  if DeepEqual (objData defaultConfigSecret) (objData secret) then
                    ([readOperator, readPrometheus], Inr (CopyToNamespace OperatorNamespace secret, True))
                  else
                    (let s = CopyToNamespace OperatorNamespace secret
                     in case mCreate env s of
                          Some err \<Rightarrow> ([readOperator, readPrometheus, Create s (Some err)], Inl err)
                        | None \<Rightarrow> ([readOperator, readPrometheus, Create s None], Inr (s, False)))
              | Inr None \<Rightarrow> ([readOperator, readPrometheus], Inr (defaultConfigSecret, True))))"

text \<open>The calls of a helper happen before the rest of the caller runs.\<close>

definition emits :: "event list \<Rightarrow> run \<Rightarrow> run" where
  "emits es k = (es @ fst k, snd k)"

text \<open>Lines 215 to 227: the request for the TigeraStatus of this controller; on success the reconcile goes on.\<close>

definition Monitor_statusConditions :: "monitor_env \<Rightarrow> Request \<Rightarrow> PrimaryCR \<Rightarrow> (PrimaryCR \<Rightarrow> run) \<Rightarrow> run" where
  "Monitor_statusConditions env request instance k =
     (if reqName request = Monitor_ResourceName \<and> reqNamespace request = [] then
        emit (Fetch (GetTigeraStatus Monitor_ResourceName))
          (case mGetTigeraStatus env of
             Inl err \<Rightarrow> return EmptyResult (Some err)
           | Inr ts \<Rightarrow>
               (let instance' = instance\<lparr>crConditions :=
                      UpdateStatusCondition2 (crConditions instance) (tsConditions ts)\<rparr>
                in case mStatusUpdate env instance' of
                     Some err \<Rightarrow> emit (StatusUpdate instance' (Some err)) (return EmptyResult (Some err))
                   | None \<Rightarrow> emit (StatusUpdate instance' None) (k instance')))
      else k instance)"

text \<open>Lines 278 to 289: the certificates of the trusted bundle.\<close>

fun Monitor_trustedCertificates ::
  "monitor_env \<Rightarrow> string list \<Rightarrow> TrustedBundle \<Rightarrow> (TrustedBundle \<Rightarrow> run) \<Rightarrow> run" where
  "Monitor_trustedCertificates env [] trustedBundle k = k trustedBundle"
| "Monitor_trustedCertificates env (certificateName # names) trustedBundle k =
     emit (Fetch (GetCertificate certificateName))
       (case mGetCertificate env certificateName of
          Inr certificate \<Rightarrow> Monitor_trustedCertificates env names (trustedBundle @ [certificate]) k
        | Inl err \<Rightarrow>
            emit (status_SetDegraded ResourceReadError ''Error fetching TLS certificate'' (Some err))
              (return EmptyResult (Some err)))"

text \<open>Lines 260 to 290: the certificate manager, the two key pairs and the trusted bundle.\<close>

definition Monitor_certificates ::
  "monitor_env \<Rightarrow> (CertificateManager \<Rightarrow> KeyPair \<Rightarrow> KeyPair \<Rightarrow> TrustedBundle \<Rightarrow> run) \<Rightarrow> run" where
  "Monitor_certificates env k =
     emit (Fetch CertificateManagerCreate)
       (case mCertificateManagerCreate env of
          Inl err \<Rightarrow>
            emit (status_SetDegraded ResourceCreateError ''Unable to create the Tigera CA'' (Some err))
              (return EmptyResult (Some err))
        | Inr certificateManager \<Rightarrow>
            emit (Fetch (GetOrCreateKeyPair PrometheusTLSSecretName))
              (case mGetOrCreateKeyPair env PrometheusTLSSecretName of
                 Inl err \<Rightarrow>
                   emit (status_SetDegraded ResourceCreateError ''Error creating TLS certificate'' (Some err))
                     (return EmptyResult (Some err))
               | Inr serverTLSSecret \<Rightarrow>
                   emit (Fetch (GetOrCreateKeyPair PrometheusClientTLSSecretName))
                     (case mGetOrCreateKeyPair env PrometheusClientTLSSecretName of
                        Inl err \<Rightarrow>
                          emit (status_SetDegraded ResourceCreateError ''Error creating TLS certificate'' (Some err))
                            (return EmptyResult (Some err))
                      | Inr clientTLSSecret \<Rightarrow>
                          Monitor_trustedCertificates env
                            [NodePrometheusTLSServerSecret, ElasticsearchMetricsServerTLSSecret,
                             FluentdPrometheusTLSSecretName]
                            []
                            (\<lambda>trustedBundle.
                               emit (AddToStatusManager TigeraPrometheusNamespace)
                                 (k certificateManager serverTLSSecret clientTLSSecret trustedBundle)))))"

text \<open>Lines 292 to 314: the Authentication resource, the key validator and the management cluster connection.\<close>

definition Monitor_authentication ::
  "monitor_env \<Rightarrow> (KeyValidatorConfig option \<Rightarrow> ManagementClusterConnection option \<Rightarrow> run) \<Rightarrow> run" where
  "Monitor_authentication env k =
     emit (Fetch GetAuthentication)
       (let authenticationCR = fst (mGetAuthentication env); err = snd (mGetAuthentication env)
        in if err \<noteq> None \<and> \<not> IsNotFound (the err) then
             emit (status_SetDegraded ResourceReadError ''Error querying Authentication'' err)
               (return EmptyResult err)
           else if authenticationCR \<noteq> None \<and> authState (the authenticationCR) \<noteq> TigeraStatusReady then
             emit (status_SetDegraded ResourceNotReady
                     (''Authentication is not ready - authenticationCR status: '' @ authState (the authenticationCR)) err)
               (return EmptyResult None)
           else
             emit (Fetch GetKeyValidatorConfig)
               (case mGetKeyValidatorConfig env authenticationCR of
                  Inl err \<Rightarrow>
                    emit (status_SetDegraded ResourceUpdateError ''Failed to process the authentication CR.'' (Some err))
                      (return EmptyResult (Some err))
                | Inr keyValidatorConfig \<Rightarrow>
                    emit (Fetch GetManagementClusterConnection)
                      (case mGetManagementClusterConnection env of
                         Inl err \<Rightarrow>
                           emit (SetDegraded ''Error reading ManagementClusterConnection'' (Error err))
                             (return EmptyResult (Some err))
                       | Inr managementClusterConnection \<Rightarrow> k keyValidatorConfig managementClusterConnection)))"

text \<open>
  Lines 324 to 365: the waiting guards before network policy is rendered. The continuation
  receives \<open>includeV3NetworkPolicy\<close>.
\<close>

definition Monitor_networkPolicyGuards ::
  "ReconcileMonitor \<Rightarrow> monitor_env \<Rightarrow> ManagementClusterConnection option \<Rightarrow> CertificateManager \<Rightarrow>
   (bool \<Rightarrow> run) \<Rightarrow> run" where
  "Monitor_networkPolicyGuards r env managementClusterConnection certificateManager k =
     (let monitorReconcilesV3NetworkPolicyRequirements =
            (managementClusterConnection \<noteq> None \<and> \<not> kpUseCertificateManagement (cmKeyPair certificateManager))
      in if monitorReconcilesV3NetworkPolicyRequirements then
           emit (Fetch IsV3NetworkPolicyReconcilable)
             (if mIsV3NetworkPolicyReconcilable env then
                (if \<not> rmTierWatchReady r then
                   emit (SetDegraded ''Waiting for Tier watch to be established'' [])
                     (return (RequeueAfterSeconds 10) None)
                 else if \<not> rmPolicyWatchesReady r then
                   emit (SetDegraded ''Waiting for NetworkPolicy watches to be established'' [])
                     (return (RequeueAfterSeconds 10) None)
                 else k True)
              else k False)
         else
           (if \<not> rmTierWatchReady r then
              emit (SetDegraded ''Waiting for Tier watch to be established'' [])
                (return (RequeueAfterSeconds 10) None)
            else if \<not> rmPolicyWatchesReady r then
              emit (SetDegraded ''Waiting for NetworkPolicy watches to be established'' [])
                (return (RequeueAfterSeconds 10) None)
            else
              emit (Fetch (GetTier TigeraComponentTierName))
                (case mGetTier env of
                   Some err \<Rightarrow>
                     if IsNotFound err then
                       emit (SetDegraded ''Waiting for allow-tigera tier to be created'' (Error err))
                         (return (RequeueAfterSeconds 10) None)
                     else
                       emit (SetDegraded ''Error querying allow-tigera tier'' (Error err))
                         (return EmptyResult (Some err))
                 | None \<Rightarrow> k True)))"

text \<open>Lines 376 to 405: the configuration and the list of components.\<close>

definition Monitor_components ::
  "ReconcileMonitor \<Rightarrow> InstallationSpec \<Rightarrow> Object list \<Rightarrow> Object \<Rightarrow> bool \<Rightarrow> KeyValidatorConfig option \<Rightarrow>
   KeyPair \<Rightarrow> KeyPair \<Rightarrow> TrustedBundle \<Rightarrow> bool \<Rightarrow> Component list" where
  "Monitor_components r install pullSecrets alertmanagerConfigSecret createInOperatorNamespace keyValidatorConfig
     serverTLSSecret clientTLSSecret trustedBundle includeV3NetworkPolicy =
     (let monitorCfg =
            \<lparr>mcfInstallation = install,
             mcfPullSecrets = pullSecrets,
             mcfAlertmanagerConfigSecret = alertmanagerConfigSecret,
             mcfKeyValidatorConfig = keyValidatorConfig,
             mcfServerTLSSecret = serverTLSSecret,
             mcfClientTLSSecret = clientTLSSecret,
             mcfClusterDomain = rmClusterDomain r,
             mcfTrustedCertBundle = trustedBundle,
             mcfOpenshift = (rmProvider r = ProviderOpenShift),
             mcfIncludeV3NetworkPolicy = includeV3NetworkPolicy\<rparr>;
          components =
            [MonitorComponent monitorCfg,
             CertificateManagementComponent
               \<lparr>cmcNamespace = TigeraPrometheusNamespace,
                cmcServiceAccounts = [PrometheusServiceAccountName],
                cmcKeyPairOptions = [(Some serverTLSSecret, True, True), (Some clientTLSSecret, True, True)],
                cmcTrustedBundle = Some trustedBundle\<rparr>]
      in if createInOperatorNamespace then components @ [Passthrough [alertmanagerConfigSecret]]
         else components)"

text \<open>Lines 419 to 435: after the apply loop.\<close>

definition Monitor_finish :: "monitor_env \<Rightarrow> PrimaryCR \<Rightarrow> run" where
  "Monitor_finish env instance =
     emit ReadyToMonitor
       (emit ClearDegraded
          (if \<not> mIsAvailable env then return (RequeueAfterSeconds 30) None
           else
             (let instance' = instance\<lparr>crState := TigeraStatusReady\<rparr>
              in case mStatusUpdate env instance' of
                   Some err \<Rightarrow>
                     emit (StatusUpdate instance' (Some err))
                       (emit (status_SetDegraded ResourceUpdateError
                                (''Error updating the monitor status '' @ TigeraStatusReady) (Some err))
                          (return EmptyResult (Some err)))
                 | None \<Rightarrow> emit (StatusUpdate instance' None) (return EmptyResult None))))"

text \<open>Lines 367 to 417: the Alertmanager secret, rendering, the image set and the apply loop.\<close>

definition Monitor_render ::
  "ReconcileMonitor \<Rightarrow> monitor_env \<Rightarrow> PrimaryCR \<Rightarrow> string \<Rightarrow> InstallationSpec \<Rightarrow> Object list \<Rightarrow>
   KeyValidatorConfig option \<Rightarrow> KeyPair \<Rightarrow> KeyPair \<Rightarrow> TrustedBundle \<Rightarrow> bool \<Rightarrow> run" where
  "Monitor_render r env instance variant install pullSecrets keyValidatorConfig
     serverTLSSecret clientTLSSecret trustedBundle includeV3NetworkPolicy =
     emits (fst (readAlertmanagerConfigSecret env))
       (case snd (readAlertmanagerConfigSecret env) of
          Inl err \<Rightarrow>
            emit (status_SetDegraded ResourceReadError ''Error retrieving Alertmanager configuration secret'' (Some err))
              (return EmptyResult (Some err))
        | Inr (alertmanagerConfigSecret, createInOperatorNamespace) \<Rightarrow>
            (let components =
                   Monitor_components r install pullSecrets alertmanagerConfigSecret createInOperatorNamespace
                     keyValidatorConfig serverTLSSecret clientTLSSecret trustedBundle includeV3NetworkPolicy
             in emit (Fetch ApplyImageSet)
                  (case mApplyImageSet env components of
                     Some err \<Rightarrow>
                       emit (status_SetDegraded ResourceUpdateError ''Error with images from ImageSet'' (Some err))
                         (return EmptyResult (Some err))
                   | None \<Rightarrow>
                       ApplyComponents (mCreateOrUpdateOrDelete env)
                         (\<lambda>err. status_SetDegraded ResourceUpdateError ''Error creating / updating resource'' (Some err))
                         components
                         (Monitor_finish env instance))))"

text \<open>
  Lines 229 to 258: the installation, the pull secrets and the Prometheus flag. The test
  of \<open>err\<close> in lines 251 to 258 comes after the returns for \<open>err != nil\<close>, so \<open>err\<close> is nil
  there and the block does nothing.
\<close>

definition Monitor_installation ::
  "ReconcileMonitor \<Rightarrow> monitor_env \<Rightarrow> (string \<Rightarrow> InstallationSpec \<Rightarrow> Object list \<Rightarrow> run) \<Rightarrow> run" where
  "Monitor_installation r env k =
     emit (Fetch GetInstallation)
       (case mGetInstallation env of
          Inl err \<Rightarrow>
            if IsNotFound err then
              emit (status_SetDegraded ResourceNotFound ''Installation not found'' (Some err))
                (return EmptyResult (Some err))
            else
              emit (status_SetDegraded ResourceReadError ''Failed to query Installation'' (Some err))
                (return EmptyResult (Some err))
        | Inr (variant, install) \<Rightarrow>
            emit (Fetch GetNetworkingPullSecrets)
              (case mGetNetworkingPullSecrets env of
                 Inl err \<Rightarrow>
                   emit (status_SetDegraded ResourceReadError ''Error retrieving pull secrets'' (Some err))
                     (return EmptyResult (Some err))
               | Inr pullSecrets \<Rightarrow>
                   if \<not> rmPrometheusReady r then
                     (let err = OtherError ''waiting for Prometheus resources''
                      in emit (status_SetDegraded ResourceNotReady ''Waiting for Prometheus resources to be ready'' (Some err))
                           (return EmptyResult (Some err)))
                   else k variant install pullSecrets))"

text \<open>\<open>ReconcileMonitor.Reconcile\<close>, lines 196 to 436.\<close>

definition ReconcileMonitor_Reconcile :: "ReconcileMonitor \<Rightarrow> monitor_env \<Rightarrow> Request \<Rightarrow> run" where
  "ReconcileMonitor_Reconcile r env request =
     emit (Fetch (GetPrimary ''Monitor''))
       (case mGetMonitor env of
          Inl err \<Rightarrow>
            if IsNotFound err then emit OnCRNotFound (return EmptyResult None)
            else emit (status_SetDegraded ResourceReadError ''Failed to query Monitor'' (Some err))
                   (return EmptyResult (Some err))
        | Inr instance0 \<Rightarrow>
            emit OnCRFound
              (deferred (SetMetaData (crName instance0) (crGeneration instance0))
                 (Monitor_statusConditions env request instance0 (\<lambda>instance.
                    Monitor_installation r env (\<lambda>variant install pullSecrets.
                      Monitor_certificates env (\<lambda>certificateManager serverTLSSecret clientTLSSecret trustedBundle.
                        Monitor_authentication env (\<lambda>keyValidatorConfig managementClusterConnection.
                          Monitor_networkPolicyGuards r env managementClusterConnection certificateManager
                            (\<lambda>includeV3NetworkPolicy.
                               Monitor_render r env instance variant install pullSecrets keyValidatorConfig
                                 serverTLSSecret clientTLSSecret trustedBundle includeV3NetworkPolicy))))))))"

section \<open>The Compliance controller\<close>

record ReconcileCompliance =
  rcProvider :: string
  rcClusterDomain :: string
  rcLicenseAPIReady :: bool
  rcPolicyWatchesReady :: bool
  rcUsePSP :: bool

text \<open>
  The answers of the cluster and the helpers; \<open>cIsComplianceFeatureActive\<close> is
  \<open>utils.IsFeatureActive(license, common.ComplianceFeature)\<close>.
\<close>

record compliance_env =
  cGetCompliance :: "error + PrimaryCR"
  cGetTigeraStatus :: "error + TigeraStatus"
  cStatusUpdate :: "PrimaryCR \<Rightarrow> error option"
  cIsAPIServerReady :: bool
  cGetTier :: "error option"
  cFetchLicenseKey :: "error + LicenseKey"
  cGetInstallation :: "error + (string \<times> InstallationSpec)"
  cGetNetworkingPullSecrets :: "error + Object list"
  cGetElasticsearchClusterConfig :: "error + string"
  cGetManagementCluster :: "error + ManagementCluster option"
  cGetManagementClusterConnection :: "error + ManagementClusterConnection option"
  cElasticsearchSecrets :: "string list \<Rightarrow> error + Object list"
  cCertificateManagerCreate :: "error + CertificateManager"
  cGetCertificate :: "string \<Rightarrow> error + Certificate option"
  cGetOrCreateKeyPair :: "string \<Rightarrow> error + KeyPair"
  cGetAuthentication :: "Authentication option \<times> error option"
  cGetKeyValidatorConfig :: "Authentication option \<Rightarrow> error + KeyValidatorConfig option"
  cIsComplianceFeatureActive :: "LicenseKey \<Rightarrow> bool"
  cRenderCompliance :: "ComplianceConfiguration \<Rightarrow> error option"
  cApplyImageSet :: "Component list \<Rightarrow> error option"
  cCreateOrUpdateOrDelete :: "Component \<Rightarrow> error option"
  cIsAvailable :: bool

definition Compliance_ResourceName :: string where
  "Compliance_ResourceName = ''compliance''"

text \<open>Lines 733 to 745: the request for the TigeraStatus of this controller; on success the reconcile goes on.\<close>

definition Compliance_statusConditions ::
  "compliance_env \<Rightarrow> Request \<Rightarrow> PrimaryCR \<Rightarrow> (PrimaryCR \<Rightarrow> run) \<Rightarrow> run" where
  "Compliance_statusConditions env request instance k =
     (if reqName request = Compliance_ResourceName \<and> reqNamespace request = [] then
        emit (Fetch (GetTigeraStatus Compliance_ResourceName))
          (case cGetTigeraStatus env of
             Inl err \<Rightarrow> return EmptyResult (Some err)
           | Inr ts \<Rightarrow>
               (let instance' = instance\<lparr>crConditions :=
                      UpdateStatusCondition2 (crConditions instance) (tsConditions ts)\<rparr>
                in case cStatusUpdate env instance' of
                     Some err \<Rightarrow> emit (StatusUpdate instance' (Some err)) (return EmptyResult (Some err))
                   | None \<Rightarrow> emit (StatusUpdate instance' None) (k instance')))
      else k instance)"

text \<open>
  Lines 747 to 782: the readiness guards and the license. In line 749 the returned \<open>err\<close>
  is the one of \<open>GetCompliance\<close>, which is nil there.
\<close>

definition Compliance_readiness ::
  "ReconcileCompliance \<Rightarrow> compliance_env \<Rightarrow> (LicenseKey \<Rightarrow> run) \<Rightarrow> run" where
  "Compliance_readiness r env k =
     emit (Fetch IsAPIServerReady)
       (if \<not> cIsAPIServerReady env then
          emit (SetDegraded ResourceNotReady ''Waiting for Tigera API server to be ready'')
            (return EmptyResult None)
        else if \<not> rcPolicyWatchesReady r then
          emit (SetDegraded ''Waiting for NetworkPolicy watches to be established'' [])
            (return (RequeueAfterSeconds 10) None)
        else
          emit (Fetch (GetTier TigeraComponentTierName))
            (case cGetTier env of
               Some err \<Rightarrow>
                 if IsNotFound err then
                   emit (SetDegraded ''Waiting for allow-tigera tier to be created'' (Error err))
                     (return (RequeueAfterSeconds 10) None)
                 else
                   emit (SetDegraded ''Error querying allow-tigera tier'' (Error err))
                     (return EmptyResult (Some err))
             | None \<Rightarrow>
                 if \<not> rcLicenseAPIReady r then
                   emit (SetDegraded ResourceNotReady ''Waiting for LicenseKeyAPI to be ready'')
                     (return (RequeueAfterSeconds 10) None)
                 else
                   emit (Fetch FetchLicenseKey)
                     (case cFetchLicenseKey env of
                        Inl err \<Rightarrow>
                          if IsNotFound err then
                            emit (Reconciler_SetDegraded ResourceNotFound ''License not found'' (Some err))
                              (return (RequeueAfterSeconds 10) None)
                          else
                            emit (Reconciler_SetDegraded ResourceReadError ''Error querying license'' (Some err))
                              (return (RequeueAfterSeconds 10) None)
                      | Inr license \<Rightarrow> k license)))"

text \<open>Lines 784 to 809: the installation, the pull secrets and the Elasticsearch cluster configuration.\<close>

definition Compliance_installation ::
  "compliance_env \<Rightarrow> (string \<Rightarrow> InstallationSpec \<Rightarrow> Object list \<Rightarrow> string \<Rightarrow> run) \<Rightarrow> run" where
  "Compliance_installation env k =
     emit (Fetch GetInstallation)
       (case cGetInstallation env of
          Inl err \<Rightarrow>
            if IsNotFound err then
              emit (Reconciler_SetDegraded ResourceNotFound ''Installation not found'' (Some err))
                (return EmptyResult (Some err))
            else
              emit (Reconciler_SetDegraded ResourceReadError ''Error querying installation'' (Some err))
                (return EmptyResult (Some err))
        | Inr (variant, network) \<Rightarrow>
            emit (Fetch GetNetworkingPullSecrets)
              (case cGetNetworkingPullSecrets env of
                 Inl err \<Rightarrow>
                   emit (Reconciler_SetDegraded ResourceReadError ''Failed to retrieve pull secrets'' (Some err))
                     (return EmptyResult (Some err))
               | Inr pullSecrets \<Rightarrow>
                   emit (Fetch GetElasticsearchClusterConfig)
                     (case cGetElasticsearchClusterConfig env of
                        Inl err \<Rightarrow>
                          if IsNotFound err then
                            emit (Reconciler_SetDegraded ResourceNotReady
                                    ''Elasticsearch cluster configuration is not available, waiting for it to become available''
                                    (Some err))
                              (return EmptyResult None)
                          else
                            emit (Reconciler_SetDegraded ResourceReadError
                                    ''Failed to get the elasticsearch cluster configuration'' (Some err))
                              (return EmptyResult (Some err))
                      | Inr esClusterConfig \<Rightarrow> k variant network pullSecrets esClusterConfig)))"

text \<open>Lines 811 to 847: the management cluster, the connection and the Elasticsearch secrets.\<close>

definition Compliance_managementCluster ::
  "compliance_env \<Rightarrow>
   (ManagementCluster option \<Rightarrow> ManagementClusterConnection option \<Rightarrow> Object list \<Rightarrow> run) \<Rightarrow> run" where
  "Compliance_managementCluster env k =
     (let secretsToWatch0 =
            [ElasticsearchComplianceBenchmarkerUserSecret, ElasticsearchComplianceControllerUserSecret,
             ElasticsearchComplianceReporterUserSecret, ElasticsearchComplianceSnapshotterUserSecret]
      in emit (Fetch GetManagementCluster)
           (case cGetManagementCluster env of
              Inl err \<Rightarrow>
                emit (Reconciler_SetDegraded ResourceReadError ''Error reading ManagementCluster'' (Some err))
                  (return EmptyResult (Some err))
            | Inr managementCluster \<Rightarrow>
                emit (Fetch GetManagementClusterConnection)
                  (case cGetManagementClusterConnection env of
                     Inl err \<Rightarrow>
                       emit (Reconciler_SetDegraded ResourceReadError ''Error reading ManagementClusterConnection'' (Some err))
                         (return EmptyResult (Some err))
                   | Inr managementClusterConnection \<Rightarrow>
                       if managementClusterConnection \<noteq> None \<and> managementCluster \<noteq> None then
                         (let err = OtherError ''having both a ManagementCluster and a ManagementClusterConnection is not supported''
                          in emit (Reconciler_SetDegraded ResourceValidationError [] (Some err))
                               (return EmptyResult (Some err)))
                       else
                         (let secretsToWatch =
                                (if managementClusterConnection = None
                                 then secretsToWatch0 @ [ElasticsearchComplianceServerUserSecret]
                                 else secretsToWatch0)
                          in emit (Fetch (ElasticsearchSecrets secretsToWatch))
                               (case cElasticsearchSecrets env secretsToWatch of
                                  Inl err \<Rightarrow>
                                    if IsNotFound err then
                                      emit (Reconciler_SetDegraded ResourceNotReady
                                              ''Elasticsearch secrets are not available yet, waiting until they become available''
                                              (Some err))
                                        (return EmptyResult None)
                                    else
                                      emit (Reconciler_SetDegraded ResourceReadError
                                              ''Failed to get Elasticsearch credentials'' (Some err))
                                        (return EmptyResult (Some err))
                                | Inr esSecrets \<Rightarrow> k managementCluster managementClusterConnection esSecrets)))))"

text \<open>Lines 849 to 885: the certificate manager, the trusted bundle and the server key pair.\<close>

definition Compliance_serverCertSecret ::
  "compliance_env \<Rightarrow> ManagementClusterConnection option \<Rightarrow> (KeyPair option \<Rightarrow> run) \<Rightarrow> run" where
  "Compliance_serverCertSecret env managementClusterConnection k =
     (if managementClusterConnection = None then
        emit (Fetch (GetOrCreateKeyPair ComplianceServerCertSecret))
          (case cGetOrCreateKeyPair env ComplianceServerCertSecret of
             Inl err \<Rightarrow>
               emit (Reconciler_SetDegraded ResourceValidationError
                       (''failed to retrieve / validate  '' @ ComplianceServerCertSecret) (Some err))
                 (return EmptyResult (Some err))
           | Inr complianceServerCertSecret \<Rightarrow> k (Some complianceServerCertSecret))
      else k None)"

definition Compliance_managerInternalTLSSecret ::
  "compliance_env \<Rightarrow> ManagementCluster option \<Rightarrow> (Certificate option \<Rightarrow> run) \<Rightarrow> run" where
  "Compliance_managerInternalTLSSecret env managementCluster k =
     (if managementCluster \<noteq> None then
        emit (Fetch (GetCertificate ManagerInternalTLSSecretName))
          (case cGetCertificate env ManagerInternalTLSSecretName of
             Inl err \<Rightarrow>
               emit (Reconciler_SetDegraded ResourceValidationError
                       (''failed to retrieve / validate  '' @ ManagerInternalTLSSecretName) (Some err))
                 (return EmptyResult (Some err))
           | Inr managerInternalTLSSecret \<Rightarrow> k managerInternalTLSSecret)
      else k None)"

definition Compliance_certificates ::
  "compliance_env \<Rightarrow> ManagementCluster option \<Rightarrow> ManagementClusterConnection option \<Rightarrow>
   (TrustedBundle \<Rightarrow> KeyPair option \<Rightarrow> run) \<Rightarrow> run" where
  "Compliance_certificates env managementCluster managementClusterConnection k =
     emit (Fetch CertificateManagerCreate)
       (case cCertificateManagerCreate env of
          Inl err \<Rightarrow>
            emit (Reconciler_SetDegraded ResourceCreateError ''Unable to create the Tigera CA'' (Some err))
              (return EmptyResult (Some err))
        | Inr certificateManager \<Rightarrow>
            Compliance_managerInternalTLSSecret env managementCluster (\<lambda>managerInternalTLSSecret.
              emit (Fetch (GetCertificate PublicCertSecret))
                (case cGetCertificate env PublicCertSecret of
                   Inl err \<Rightarrow>
                     emit (Reconciler_SetDegraded ResourceValidationError
                             (''Failed to retrieve / validate  '' @ PublicCertSecret) (Some err))
                       (return EmptyResult (Some err))
                 | Inr None \<Rightarrow>
                     emit (SetDegraded ResourceNotReady
                             ''Elasticsearch gateway certificate are not available yet, waiting until they become available'')
                       (return EmptyResult None)
                 | Inr (Some esgwCertificate) \<Rightarrow>
                     (let trustedBundle = [managerInternalTLSSecret, Some esgwCertificate]
                      in Compliance_serverCertSecret env managementClusterConnection (\<lambda>complianceServerCertSecret.
                           emit (AddToStatusManager ComplianceNamespace)
                             (k trustedBundle complianceServerCertSecret))))))"

text \<open>Lines 887 to 905: the Authentication resource and the key validator.\<close>

definition Compliance_authentication ::
  "compliance_env \<Rightarrow> (KeyValidatorConfig option \<Rightarrow> run) \<Rightarrow> run" where
  "Compliance_authentication env k =
     emit (Fetch GetAuthentication)
       (let authenticationCR = fst (cGetAuthentication env); err = snd (cGetAuthentication env)
        in if err \<noteq> None \<and> \<not> IsNotFound (the err) then
             emit (Reconciler_SetDegraded ResourceReadError ''Error querying Authentication'' err)
               (return EmptyResult err)
           else if authenticationCR \<noteq> None \<and> authState (the authenticationCR) \<noteq> TigeraStatusReady then
             emit (SetDegraded ResourceNotReady
                     (''Authentication is not ready - authenticationCR status: '' @ authState (the authenticationCR)))
               (return EmptyResult None)
           else
             emit (Fetch GetKeyValidatorConfig)
               (case cGetKeyValidatorConfig env authenticationCR of
                  Inl err \<Rightarrow>
                    emit (Reconciler_SetDegraded ResourceValidationError ''Failed to process the authentication CR.'' (Some err))
                      (return EmptyResult (Some err))
                | Inr keyValidatorConfig \<Rightarrow> k keyValidatorConfig))"

text \<open>Lines 958 to 972: after the apply loop and the license check.\<close>

definition Compliance_finish :: "compliance_env \<Rightarrow> PrimaryCR \<Rightarrow> run" where
  "Compliance_finish env instance =
     emit ClearDegraded
       (if \<not> cIsAvailable env then return (RequeueAfterSeconds 30) None
        else
          (let instance' = instance\<lparr>crState := TigeraStatusReady\<rparr>
           in case cStatusUpdate env instance' of
                Some err \<Rightarrow> emit (StatusUpdate instance' (Some err)) (return EmptyResult (Some err))
              | None \<Rightarrow> emit (StatusUpdate instance' None) (return EmptyResult None)))"

text \<open>Lines 907 to 956: rendering, the image set, the apply loop and the license check.\<close>

definition Compliance_render ::
  "ReconcileCompliance \<Rightarrow> compliance_env \<Rightarrow> PrimaryCR \<Rightarrow> LicenseKey \<Rightarrow> string \<Rightarrow> InstallationSpec \<Rightarrow>
   Object list \<Rightarrow> string \<Rightarrow> ManagementCluster option \<Rightarrow> ManagementClusterConnection option \<Rightarrow> Object list \<Rightarrow>
   TrustedBundle \<Rightarrow> KeyPair option \<Rightarrow> KeyValidatorConfig option \<Rightarrow> run" where
  "Compliance_render r env instance license variant network pullSecrets esClusterConfig
     managementCluster managementClusterConnection esSecrets trustedBundle complianceServerCertSecret
     keyValidatorConfig =
     (let hasNoLicense = (\<not> cIsComplianceFeatureActive env license);
          openshift = (rcProvider r = ProviderOpenShift);
          complianceCfg =
            \<lparr>ccESSecrets = esSecrets,
             ccTrustedBundle = trustedBundle,
             ccInstallation = network,
             ccComplianceServerCertSecret = complianceServerCertSecret,
             ccESClusterConfig = esClusterConfig,
             ccPullSecrets = pullSecrets,
             ccOpenshift = openshift,
             ccManagementCluster = managementCluster,
             ccManagementClusterConnection = managementClusterConnection,
             ccKeyValidatorConfig = keyValidatorConfig,
             ccClusterDomain = rcClusterDomain r,
             ccHasNoLicense = hasNoLicense,
             ccUsePSP = rcUsePSP r\<rparr>
      in case cRenderCompliance env complianceCfg of
           Some err \<Rightarrow>
             emit (Reconciler_SetDegraded ResourceRenderingError ''Error rendering Compliance'' (Some err))
               (return EmptyResult (Some err))
         | None \<Rightarrow>
             (let comp = ComplianceComponent complianceCfg
              in emit (Fetch ApplyImageSet)
                   (case cApplyImageSet env [comp] of
                      Some err \<Rightarrow>
                        emit (Reconciler_SetDegraded ResourceUpdateError ''Error with images from ImageSet'' (Some err))
                          (return EmptyResult (Some err))
                    | None \<Rightarrow>
                        (let certificateComponent =
                               CertificateManagementComponent
                                 \<lparr>cmcNamespace = ComplianceNamespace,
                                  cmcServiceAccounts = [ComplianceServerSAName],
                                  cmcKeyPairOptions = [(complianceServerCertSecret, True, True)],
                                  cmcTrustedBundle = Some trustedBundle\<rparr>
                         in ApplyComponents (cCreateOrUpdateOrDelete env)
                              (\<lambda>err. Reconciler_SetDegraded ResourceUpdateError
                                        ''Error creating / updating / deleting resource'' (Some err))
                              [comp, certificateComponent]
                              (if hasNoLicense then
                                 emit (SetDegraded ResourceValidationError
                                         ''Feature is not active - License does not support this feature'')
                                   (return EmptyResult None)
                               else Compliance_finish env instance)))))"

text \<open>\<open>ReconcileCompliance.Reconcile\<close>, lines 707 to 973.\<close>

definition ReconcileCompliance_Reconcile :: "ReconcileCompliance \<Rightarrow> compliance_env \<Rightarrow> Request \<Rightarrow> run" where
  "ReconcileCompliance_Reconcile r env request =
     emit (Fetch (GetPrimary ''Compliance''))
       (case cGetCompliance env of
          Inl err \<Rightarrow>
            if IsNotFound err then emit OnCRNotFound (return EmptyResult None)
            else emit (Reconciler_SetDegraded ResourceReadError ''Error querying compliance'' (Some err))
                   (return EmptyResult (Some err))
        | Inr instance0 \<Rightarrow>
            emit OnCRFound
              (deferred (SetMetaData (crName instance0) (crGeneration instance0))
                 (Compliance_statusConditions env request instance0 (\<lambda>instance.
                    Compliance_readiness r env (\<lambda>license.
                      Compliance_installation env (\<lambda>variant network pullSecrets esClusterConfig.
                        Compliance_managementCluster env (\<lambda>managementCluster managementClusterConnection esSecrets.
                          Compliance_certificates env managementCluster managementClusterConnection
                            (\<lambda>trustedBundle complianceServerCertSecret.
                               Compliance_authentication env (\<lambda>keyValidatorConfig.
                                 Compliance_render r env instance license variant network pullSecrets esClusterConfig
                                   managementCluster managementClusterConnection esSecrets trustedBundle
                                   complianceServerCertSecret keyValidatorConfig)))))))))"

section \<open>Adding the controllers to the manager\<close>

text \<open>
  \<open>options.AddOptions\<close>, the fields the three \<open>Add\<close> functions read. Setting a controller
  up is a trace of its own: the reconciler made, the controller made, the goroutines
  started and the watches asked for, each with the error the call returned.
\<close>

record AddOptions =
  DetectedProvider :: string
  AmazonCRDExists :: bool
  EnterpriseCRDExists :: bool
  ClusterDomain :: string
  UsePSP :: bool

datatype watch =
    WatchKind string
  | NetworkWatch
  | ImageSetWatch
  | APIServerWatch
  | ConfigMapWatch string string
  | SecretsWatch string string
  | TigeraStatusWatch string

datatype setup_event =
    NewReconciler string
  | ControllerNew string "error option"
  | NewForConfig "error option"
  | Go string
  | Watch watch "error option"

text \<open>What the manager and the controller answer while a controller is added.\<close>

record add_env =
  aeControllerNew :: "error option"
  aeNewForConfig :: "error option"
  aeWatch :: "watch \<Rightarrow> error option"

text \<open>\<open>fmt.Errorf(prefix + "%v", err)\<close> and \<open>fmt.Errorf(prefix + "%w", err)\<close>.\<close>

definition Errorf :: "string \<Rightarrow> error \<Rightarrow> error" where
  "Errorf prefix err = OtherError (prefix @ Error err)"

text \<open>
  A run of watch registrations, each followed by \<open>if err != nil { return ... }\<close>: the first
  failing one ends the function with its error, wrapped as that call site wraps it.
\<close>

fun addWatches :: "(watch \<Rightarrow> error option) \<Rightarrow> (watch \<times> (error \<Rightarrow> error)) list \<Rightarrow> setup_event list \<times> error option" where
  "addWatches fails [] = ([], None)"
| "addWatches fails ((w, wrap) # ws) =
     (case fails w of
        Some err \<Rightarrow> ([Watch w (Some err)], Some (wrap err))
      | None \<Rightarrow> (case addWatches fails ws of (events, err) \<Rightarrow> (Watch w None # events, err)))"

text \<open>
  The constants of other packages that name what the APIServer controller watches. Which
  secret a watch is on depends on their values, so \<open>add\<close> takes them as a parameter.
\<close>

record WatchNames =
  wnOperatorNamespace :: string
  wnAPIServerNamespaceEnterprise :: string
  wnK8sSvcEndpointConfigMapName :: string
  wnVoltronTunnelSecretName :: string
  wnPacketCaptureCertSecret :: string
  wnCASecretName :: string
  wnDexTLSSecretName :: string

text \<open>The watches of \<open>add\<close> in package \<open>apiserver\<close>, lines 82 to 147, in the order of the code.\<close>

definition APIServer_watches :: "WatchNames \<Rightarrow> ReconcileAPIServer \<Rightarrow> (watch \<times> (error \<Rightarrow> error)) list" where
  "APIServer_watches N r =
     [(WatchKind ''APIServer'', Errorf ''apiserver-controller failed to watch primary resource: ''),
      (NetworkWatch, Errorf ''apiserver-controller failed to watch Tigera network resource: ''),
      (ConfigMapWatch (wnK8sSvcEndpointConfigMapName N) (wnOperatorNamespace N),
         Errorf (''apiserver-controller failed to watch ConfigMap '' @ wnK8sSvcEndpointConfigMapName N @ '': ''))]
     @ (if rasAmazonCRDExists r then
          [(WatchKind ''AmazonCloudIntegration'', Errorf ''apiserver-controller failed to watch primary resource: '')]
        else [])
     @ (if rasEnterpriseCRDsExist r then
          [(WatchKind ''ManagementCluster'', Errorf ''apiserver-controller failed to watch primary resource: ''),
           (WatchKind ''ManagementClusterConnection'', Errorf ''apiserver-controller failed to watch primary resource: '')]
          @ map (\<lambda>namespace. (SecretsWatch (wnVoltronTunnelSecretName N) namespace,
                                Errorf ''apiserver-controller failed to watch the Secret resource: ''))
              [wnOperatorNamespace N, wnAPIServerNamespaceEnterprise N]
          @ [(WatchKind ''Authentication'', Errorf ''apiserver-controller failed to watch resource: '')]
        else [])
     @ map (\<lambda>secretName. (SecretsWatch secretName (wnOperatorNamespace N),
                            Errorf ''apiserver-controller failed to watch the Secret resource: ''))
         [''calico-apiserver-certs'', ''tigera-apiserver-certs'', wnPacketCaptureCertSecret N,
          wnCASecretName N, wnDexTLSSecretName N]
     @ [(ImageSetWatch, Errorf ''apiserver-controller failed to watch ImageSet: ''),
        (WatchKind ''TigeraStatus'', Errorf ''apiserver-controller failed to watch apiserver Tigerastatus: '')]"

definition APIServer_add :: "WatchNames \<Rightarrow> add_env \<Rightarrow> ReconcileAPIServer \<Rightarrow> setup_event list \<times> error option" where
  "APIServer_add N env r =
     (case aeControllerNew env of
        Some err \<Rightarrow>
          ([ControllerNew ''apiserver-controller'' (Some err)],
           Some (Errorf ''Failed to create apiserver-controller: '' err))
      | None \<Rightarrow>
          (ControllerNew ''apiserver-controller'' None # fst (addWatches (aeWatch env) (APIServer_watches N r)),
           snd (addWatches (aeWatch env) (APIServer_watches N r))))"

definition APIServer_newReconciler :: "AddOptions \<Rightarrow> ReconcileAPIServer" where
  "APIServer_newReconciler opts =
     \<lparr>rasProvider = DetectedProvider opts,
      rasAmazonCRDExists = AmazonCRDExists opts,
      rasEnterpriseCRDsExist = EnterpriseCRDExists opts,
      rasClusterDomain = ClusterDomain opts\<rparr>"

definition APIServer_Add :: "WatchNames \<Rightarrow> add_env \<Rightarrow> AddOptions \<Rightarrow> setup_event list \<times> error option" where
  "APIServer_Add N env opts =
     (NewReconciler ''apiserver'' # fst (APIServer_add N env (APIServer_newReconciler opts)),
      snd (APIServer_add N env (APIServer_newReconciler opts)))"

text \<open>The watches of \<open>add\<close> in package \<open>monitor\<close>, lines 125 to 170.\<close>

definition Monitor_watches :: "(watch \<times> (error \<Rightarrow> error)) list" where
  "Monitor_watches =
     [(WatchKind ''Monitor'', Errorf ''monitor-controller failed to watch primary resource: ''),
      (NetworkWatch, Errorf ''monitor-controller failed to watch Installation resource: ''),
      (ImageSetWatch, Errorf ''monitor-controller failed to watch ImageSet: ''),
      (WatchKind ''ManagementClusterConnection'',
         Errorf ''monitor-controller failed to watch ManagementClusterConnection resource: '')]
     @ map (\<lambda>secret. (SecretsWatch secret OperatorNamespace, Errorf ''monitor-controller failed to watch secret: ''))
         [PrometheusTLSSecretName, FluentdPrometheusTLSSecretName, NodePrometheusTLSServerSecret,
          ElasticsearchMetricsServerTLSSecret, FluentdPrometheusTLSSecretName,
          ''certificatemanagement.CASecretName'']
     @ [(WatchKind ''Authentication'', Errorf ''monitor-controller failed to watch resource: ''),
        (TigeraStatusWatch Monitor_ResourceName, Errorf ''monitor-controller failed to watch monitor Tigerastatus: '')]"

text \<open>
  \<open>Add\<close> in package \<open>monitor\<close>, lines 61 to 102. The three goroutines are started before
  \<open>add\<close> runs; what they do later is outside this function.
\<close>

definition Monitor_Add :: "add_env \<Rightarrow> AddOptions \<Rightarrow> setup_event list \<times> error option" where
  "Monitor_Add env opts =
     (if \<not> EnterpriseCRDExists opts then ([], None)
      else
        (case aeControllerNew env of
           Some err \<Rightarrow>
             ([NewReconciler ''monitor'', ControllerNew ''monitor-controller'' (Some err)],
              Some (Errorf ''failed to create monitor-controller: '' err))
         | None \<Rightarrow>
             (case aeNewForConfig env of
                Some err \<Rightarrow>
                  ([NewReconciler ''monitor'', ControllerNew ''monitor-controller'' None, NewForConfig (Some err)],
                   Some err)
              | None \<Rightarrow>
                  ([NewReconciler ''monitor'', ControllerNew ''monitor-controller'' None, NewForConfig None,
                    Go ''utils.WaitToAddTierWatch'', Go ''utils.WaitToAddNetworkPolicyWatches'',
                    Go ''waitToAddPrometheusWatch'']
                   @ fst (addWatches (aeWatch env) Monitor_watches),
                   snd (addWatches (aeWatch env) Monitor_watches)))))"

text \<open>
  The watches of \<open>add\<close> in package \<open>compliance\<close>, lines 612 to 674; the watch on the primary
  resource returns its error unwrapped.
\<close>

definition Compliance_watches :: "(watch \<times> (error \<Rightarrow> error)) list" where
  "Compliance_watches =
     [(WatchKind ''Compliance'', (\<lambda>err. err)),
      (NetworkWatch, Errorf ''compliance-controller failed to watch Network resource: ''),
      (ImageSetWatch, Errorf ''compliance-controller failed to watch ImageSet: ''),
      (APIServerWatch, Errorf ''compliance-controller failed to watch APIServer resource: '')]
     @ concat (map (\<lambda>namespace.
         map (\<lambda>secretName.
                (SecretsWatch secretName namespace,
                 Errorf (''compliance-controller failed to watch the secret '' @ secretName @ '' in '' @ namespace
                         @ '' namespace: '')))
           [''render.TigeraElasticsearchGatewaySecret'', ElasticsearchComplianceBenchmarkerUserSecret,
            ElasticsearchComplianceControllerUserSecret, ElasticsearchComplianceReporterUserSecret,
            ElasticsearchComplianceSnapshotterUserSecret, ElasticsearchComplianceServerUserSecret,
            ComplianceServerCertSecret, ManagerInternalTLSSecretName, ''certificatemanagement.CASecretName''])
         [OperatorNamespace, ComplianceNamespace])
     @ [(ConfigMapWatch ''relasticsearch.ClusterConfigConfigMapName'' OperatorNamespace,
           Errorf ''compliance-controller failed to watch the ConfigMap resource: ''),
        (WatchKind ''ManagementCluster'', Errorf ''compliance-controller failed to watch primary resource: ''),
        (WatchKind ''ManagementClusterConnection'', Errorf ''compliance-controller failed to watch primary resource: ''),
        (WatchKind ''Authentication'', Errorf ''compliance-controller failed to watch resource: ''),
        (TigeraStatusWatch Compliance_ResourceName,
           Errorf ''compliance-controller failed to watch compliance Tigerastatus: '')]"

text \<open>\<open>Add\<close> in package \<open>compliance\<close>, lines 561 to 593.\<close>

definition Compliance_Add :: "add_env \<Rightarrow> AddOptions \<Rightarrow> setup_event list \<times> error option" where
  "Compliance_Add env opts =
     (if \<not> EnterpriseCRDExists opts then ([], None)
      else
        (case aeControllerNew env of
           Some err \<Rightarrow>
             ([NewReconciler ''compliance'', ControllerNew ''compliance-controller'' (Some err)], Some err)
         | None \<Rightarrow>
             (case aeNewForConfig env of
                Some err \<Rightarrow>
                  ([NewReconciler ''compliance'', ControllerNew ''compliance-controller'' None, NewForConfig (Some err)],
                   Some err)
              | None \<Rightarrow>
                  ([NewReconciler ''compliance'', ControllerNew ''compliance-controller'' None, NewForConfig None,
                    Go ''utils.WaitToAddLicenseKeyWatch'', Go ''utils.WaitToAddNetworkPolicyWatches'']
                   @ fst (addWatches (aeWatch env) Compliance_watches),
                   snd (addWatches (aeWatch env) Compliance_watches)))))"

text \<open>The watches that were registered: asked for and answered without an error.\<close>

fun registered :: "setup_event list \<Rightarrow> watch list" where
  "registered [] = []"
| "registered (Watch w None # es) = w # registered es"
| "registered (e # es) = registered es"

section \<open>The cluster as an object store\<close>











text \<open>The components a reconcile rendered and applied.\<close>

fun appliedComponents :: "event list \<Rightarrow> Component list" where
  "appliedComponents [] = []"
| "appliedComponents (CreateOrUpdateOrDelete c None # es) = c # appliedComponents es"
| "appliedComponents (e # es) = appliedComponents es"



section \<open>Properties of a trace\<close>

fun isApply :: "event \<Rightarrow> bool" where
  "isApply (CreateOrUpdateOrDelete c err) = True"
| "isApply e = False"

fun isCreate :: "event \<Rightarrow> bool" where
  "isCreate (Create obj err) = True"
| "isCreate e = False"

fun isSetDegraded :: "event \<Rightarrow> bool" where
  "isSetDegraded (SetDegraded reason message) = True"
| "isSetDegraded e = False"

fun isSetMetaData :: "event \<Rightarrow> bool" where
  "isSetMetaData (SetMetaData name generation) = True"
| "isSetMetaData e = False"

fun isLicenseFetch :: "event \<Rightarrow> bool" where
  "isLicenseFetch (Fetch c) = (c = FetchLicenseKey)"
| "isLicenseFetch e = False"

text \<open>
  The degraded statuses of the waiting guards: the Tier watch, the NetworkPolicy watches,
  the allow-tigera tier and the LicenseKey API.
\<close>

definition isWaiting :: "string \<Rightarrow> string \<Rightarrow> bool" where
  "isWaiting reason message =
     (reason = ''Waiting for Tier watch to be established''
      \<or> reason = ''Waiting for NetworkPolicy watches to be established''
      \<or> reason = ''Waiting for allow-tigera tier to be created''
      \<or> (reason = ResourceNotReady \<and> message = ''Waiting for LicenseKeyAPI to be ready''))"

fun isWaitingDegraded :: "event \<Rightarrow> bool" where
  "isWaitingDegraded (SetDegraded reason message) = isWaiting reason message"
| "isWaitingDegraded e = False"

text \<open>An update of the status subresource that carries the state \<open>Ready\<close>.\<close>

fun isReadyUpdate :: "event \<Rightarrow> bool" where
  "isReadyUpdate (StatusUpdate instance err) = (crState instance = TigeraStatusReady)"
| "isReadyUpdate e = False"

text \<open>Once a degraded status is set, no component is applied any more.\<close>

fun noApplyAfterDegraded :: "event list \<Rightarrow> bool" where
  "noApplyAfterDegraded [] = True"
| "noApplyAfterDegraded (e # es) = ((isSetDegraded e \<longrightarrow> \<not> list_ex isApply es) \<and> noApplyAfterDegraded es)"

text \<open>
  Setting a degraded status is the last thing a reconcile does: only the deferred
  \<open>SetMetaData\<close> comes after it.
\<close>

fun returnsAtDegraded :: "event list \<Rightarrow> bool" where
  "returnsAtDegraded [] = True"
| "returnsAtDegraded (e # es) = ((isSetDegraded e \<longrightarrow> list_all isSetMetaData es) \<and> returnsAtDegraded es)"

text \<open>
  If a component is applied at all, the LicenseKey was fetched before the first component
  was applied.
\<close>

definition licenseBeforeApply :: "event list \<Rightarrow> bool" where
  "licenseBeforeApply log =
     (list_ex isApply log \<longrightarrow> list_ex isLicenseFetch (takeWhile (\<lambda>e. \<not> isApply e) log))"

text \<open>Once a component is applied, the client creates no object directly any more.\<close>

fun noCreateAfterApply :: "event list \<Rightarrow> bool" where
  "noCreateAfterApply [] = True"
| "noCreateAfterApply (e # es) = ((isApply e \<longrightarrow> \<not> list_ex isCreate es) \<and> noCreateAfterApply es)"

text \<open>
  Where a reconcile that applied nothing stopped: its last call, the deferred
  \<open>SetMetaData\<close> aside, set the degraded status, or reported that the custom resource was
  not found, or belongs to the block that copies the TigeraStatus conditions.
\<close>

fun guardStop :: "event \<Rightarrow> bool" where
  "guardStop (SetDegraded reason message) = True"
| "guardStop OnCRNotFound = True"
| "guardStop (Fetch (GetTigeraStatus name)) = True"
| "guardStop (StatusUpdate instance err) = True"
| "guardStop e = False"

definition lastCall :: "event list \<Rightarrow> event option" where
  "lastCall log = (case rev (filter (\<lambda>e. \<not> isSetMetaData e) log) of [] \<Rightarrow> None | e # es \<Rightarrow> Some e)"

definition stoppedAtGuard :: "event list \<Rightarrow> bool" where
  "stoppedAtGuard log = (case lastCall log of None \<Rightarrow> False | Some e \<Rightarrow> guardStop e)"

text \<open>The part of the trace from \<open>ClearDegraded\<close> on.\<close>

definition afterClear :: "event list \<Rightarrow> event list" where
  "afterClear log = dropWhile (\<lambda>e. e \<noteq> ClearDegraded) log"

text \<open>
  What holds of every reconcile, whichever path it takes; \<open>avail\<close> is what \<open>IsAvailable\<close>
  answers and \<open>lic\<close> tells whether the controller may fetch the LicenseKey.
\<close>

definition Inv :: "bool \<Rightarrow> bool \<Rightarrow> run \<Rightarrow> bool" where
  "Inv avail lic k =
     (noApplyAfterDegraded (fst k)
      \<and> returnsAtDegraded (fst k)
      \<and> noCreateAfterApply (fst k)
      \<and> lastCall (fst k) \<noteq> None
      \<and> (\<not> list_ex isApply (fst k) \<longrightarrow> snd k \<noteq> Panic \<longrightarrow> stoppedAtGuard (fst k))
      \<and> (ClearDegraded \<in> set (fst k) \<longrightarrow>
           (\<not> avail \<longrightarrow> snd k = Return (RequeueAfterSeconds 30) None)
           \<and> (avail \<longrightarrow> list_ex isReadyUpdate (afterClear (fst k)) \<and> (\<exists>err. snd k = Return EmptyResult err)))
      \<and> (list_ex isWaitingDegraded (fst k) \<longrightarrow> snd k = Return (RequeueAfterSeconds 10) None)
      \<and> (\<not> lic \<longrightarrow> \<not> list_ex isLicenseFetch (fst k)))"

text \<open>The events that may come before anything else without changing what \<open>Inv\<close> says.\<close>

fun neutral :: "bool \<Rightarrow> event \<Rightarrow> bool" where
  "neutral lic (Fetch c) = (lic \<or> c \<noteq> FetchLicenseKey)"
| "neutral lic OnCRFound = True"
| "neutral lic ReadyToMonitor = True"
| "neutral lic (AddToStatusManager ns) = True"
| "neutral lic (StatusUpdate instance err) = True"
| "neutral lic (Create obj err) = True"
| "neutral lic e = False"

section \<open>Sample clusters\<close>

text \<open>
  Concrete inputs on which every guard passes, after the set-up of the controller tests:
  an enterprise installation, the custom resource \<open>tigera-secure\<close> of generation 2, no
  management cluster, and a TigeraStatus with the three conditions.
\<close>

definition sampleInstance :: PrimaryCR where
  "sampleInstance = \<lparr>crName = ''tigera-secure'', crGeneration = 2, crState = [], crConditions = []\<rparr>"

definition sampleInstallation :: InstallationSpec where
  "sampleInstallation = \<lparr>instVariant = TigeraSecureEnterprise, instRegistry = ''some.registry.org/''\<rparr>"

definition sampleKeyPair :: "string \<Rightarrow> KeyPair" where
  "sampleKeyPair name = \<lparr>kpName = name, kpUseCertificateManagement = False, kpData = []\<rparr>"

definition sampleTigeraStatus :: "string \<Rightarrow> TigeraStatus" where
  "sampleTigeraStatus name =
     \<lparr>tsName = name,
      tsConditions =
        [\<lparr>tscType = ComponentAvailable, tscStatus = ''True'', tscReason = ''AllObjectsAvailable'',
          tscMessage = ''All Objects are available'', tscObservedGeneration = 1\<rparr>,
         \<lparr>tscType = ComponentProgressing, tscStatus = ''False'', tscReason = ''NotApplicable'',
          tscMessage = ''Not Applicable'', tscObservedGeneration = 1\<rparr>,
         \<lparr>tscType = ComponentDegraded, tscStatus = ''False'', tscReason = ''NotApplicable'',
          tscMessage = ''Not Applicable'', tscObservedGeneration = 1\<rparr>]\<rparr>"

definition sampleRequest :: Request where
  "sampleRequest = \<lparr>reqNamespace = [], reqName = []\<rparr>"

definition sampleAPIServerReconciler :: ReconcileAPIServer where
  "sampleAPIServerReconciler =
     \<lparr>rasProvider = [], rasAmazonCRDExists = False, rasEnterpriseCRDsExist = True,
      rasClusterDomain = ''cluster.local''\<rparr>"

definition sampleAPIServerEnv :: apiserver_env where
  "sampleAPIServerEnv =
     \<lparr>asGetAPIServer = Inr sampleInstance,
      asGetTigeraStatus = Inr (sampleTigeraStatus ''apiserver''),
      asStatusUpdate = (\<lambda>instance. None),
      asGetInstallation = Inr (TigeraSecureEnterprise, sampleInstallation),
      asCertificateManagerCreate = Inr \<lparr>cmKeyPair = sampleKeyPair ''tigera-ca-private''\<rparr>,
      asGetOrCreateKeyPair = (\<lambda>name. Inr (sampleKeyPair name)),
      asGetNetworkingPullSecrets = Inr [],
      asGetManagementCluster = Inr None,
      asGetManagementClusterConnection = Inr None,
      asGetKeyPair = (None, None),
      asNewKeyPair = (Some (sampleKeyPair VoltronTunnelSecretName), None),
      asGetAmazonCloudIntegration = (None, Some (NotFoundError ''not found'')),
      asGetK8sServiceEndPoint = Inr [],
      asRenderAPIServer = (\<lambda>cfg. None),
      asGetAuthentication = (None, Some (NotFoundError ''not found'')),
      asGetKeyValidatorConfig = (\<lambda>authenticationCR. Inr None),
      asApplyImageSet = (\<lambda>components. None),
      asCreateOrUpdateOrDelete = (\<lambda>component. None),
      asIsAvailable = True\<rparr>"

definition sampleMonitorReconciler :: ReconcileMonitor where
  "sampleMonitorReconciler =
     \<lparr>rmProvider = [], rmPrometheusReady = True, rmTierWatchReady = True, rmPolicyWatchesReady = True,
      rmClusterDomain = ''cluster.local''\<rparr>"

definition sampleMonitorEnv :: monitor_env where
  "sampleMonitorEnv =
     \<lparr>mGetMonitor = Inr sampleInstance,
      mGetTigeraStatus = Inr (sampleTigeraStatus ''monitor''),
      mStatusUpdate = (\<lambda>instance. None),
      mGetInstallation = Inr (TigeraSecureEnterprise, sampleInstallation),
      mGetNetworkingPullSecrets = Inr [],
      mCertificateManagerCreate = Inr \<lparr>cmKeyPair = sampleKeyPair ''tigera-ca-private''\<rparr>,
      mGetOrCreateKeyPair = (\<lambda>name. Inr (sampleKeyPair name)),
      mGetCertificate = (\<lambda>name. Inr (Some name)),
      mGetAuthentication = (None, Some (NotFoundError ''not found'')),
      mGetKeyValidatorConfig = (\<lambda>authenticationCR. Inr None),
      mGetManagementClusterConnection = Inr None,
      mIsV3NetworkPolicyReconcilable = True,
      mGetTier = None,
      mAlertmanagerConfig = ''global: {}'',
      mGetSecret = (\<lambda>name namespace. Inr None),
      mCreate = (\<lambda>obj. None),
      mApplyImageSet = (\<lambda>components. None),
      mCreateOrUpdateOrDelete = (\<lambda>component. None),
      mIsAvailable = True\<rparr>"

definition sampleComplianceReconciler :: ReconcileCompliance where
  "sampleComplianceReconciler =
     \<lparr>rcProvider = [], rcClusterDomain = ''cluster.local'', rcLicenseAPIReady = True,
      rcPolicyWatchesReady = True, rcUsePSP = False\<rparr>"

definition sampleComplianceEnv :: compliance_env where
  "sampleComplianceEnv =
     \<lparr>cGetCompliance = Inr sampleInstance,
      cGetTigeraStatus = Inr (sampleTigeraStatus ''compliance''),
      cStatusUpdate = (\<lambda>instance. None),
      cIsAPIServerReady = True,
      cGetTier = None,
      cFetchLicenseKey = Inr \<lparr>licFeatures = [''compliance-reports'']\<rparr>,
      cGetInstallation = Inr (TigeraSecureEnterprise, sampleInstallation),
      cGetNetworkingPullSecrets = Inr [],
      cGetElasticsearchClusterConfig = Inr ''cluster'',
      cGetManagementCluster = Inr None,
      cGetManagementClusterConnection = Inr None,
      cElasticsearchSecrets = (\<lambda>names. Inr []),
      cCertificateManagerCreate = Inr \<lparr>cmKeyPair = sampleKeyPair ''tigera-ca-private''\<rparr>,
      cGetCertificate = (\<lambda>name. Inr (Some name)),
      cGetOrCreateKeyPair = (\<lambda>name. Inr (sampleKeyPair name)),
      cGetAuthentication = (None, Some (NotFoundError ''not found'')),
      cGetKeyValidatorConfig = (\<lambda>authenticationCR. Inr None),
      cIsComplianceFeatureActive = (\<lambda>license. True),
      cRenderCompliance = (\<lambda>cfg. None),
      cApplyImageSet = (\<lambda>components. None),
      cCreateOrUpdateOrDelete = (\<lambda>component. None),
      cIsAvailable = True\<rparr>"


definition sampleWatchNames :: WatchNames where
  "sampleWatchNames =
     \<lparr>wnOperatorNamespace = ''tigera-operator'',
      wnAPIServerNamespaceEnterprise = ''tigera-system'',
      wnK8sSvcEndpointConfigMapName = ''kubernetes-services-endpoint'',
      wnVoltronTunnelSecretName = ''tigera-management-cluster-connection'',
      wnPacketCaptureCertSecret = ''tigera-packetcapture-server-tls'',
      wnCASecretName = ''tigera-ca-private'',
      wnDexTLSSecretName = ''tigera-dex-tls''\<rparr>"

definition sampleAddEnv :: add_env where
  "sampleAddEnv = \<lparr>aeControllerNew = None, aeNewForConfig = None, aeWatch = (\<lambda>w. None)\<rparr>"

definition sampleAddOptions :: AddOptions where
  "sampleAddOptions =
     \<lparr>DetectedProvider = [], AmazonCRDExists = False, EnterpriseCRDExists = False,
      ClusterDomain = ''cluster.local'', UsePSP = False\<rparr>"

text \<open>
  The watches the APIServer controller asks for on behalf of the enterprise resources:
  ManagementCluster, ManagementClusterConnection, Authentication and the Voltron tunnel
  secret.
\<close>

fun enterpriseWatch :: "WatchNames \<Rightarrow> watch \<Rightarrow> bool" where
  "enterpriseWatch N (WatchKind kind) =
     (kind = ''ManagementCluster'' \<or> kind = ''ManagementClusterConnection'' \<or> kind = ''Authentication'')"
| "enterpriseWatch N (SecretsWatch name namespace) = (name = wnVoltronTunnelSecretName N)"
| "enterpriseWatch N w = False"

text \<open>The part of \<open>Inv\<close> that also holds of what runs after the apply loop has started.\<close>

definition InvCore :: "bool \<Rightarrow> bool \<Rightarrow> run \<Rightarrow> bool" where
  "InvCore avail lic k =
     (noApplyAfterDegraded (fst k)
      \<and> returnsAtDegraded (fst k)
      \<and> noCreateAfterApply (fst k)
      \<and> (ClearDegraded \<in> set (fst k) \<longrightarrow>
           (\<not> avail \<longrightarrow> snd k = Return (RequeueAfterSeconds 30) None)
           \<and> (avail \<longrightarrow> list_ex isReadyUpdate (afterClear (fst k)) \<and> (\<exists>err. snd k = Return EmptyResult err)))
      \<and> (list_ex isWaitingDegraded (fst k) \<longrightarrow> snd k = Return (RequeueAfterSeconds 10) None)
      \<and> (\<not> lic \<longrightarrow> \<not> list_ex isLicenseFetch (fst k)))"



section \<open>Helper lemmas\<close>

lemmas run_defs = emit_def return_def panic_def deferred_def emits_def

section \<open>Claims\<close>

text \<open>
  C2. Each controller first fetches its primary custom resource; when the fetch answers
  with a not-found error, \<open>Reconcile\<close> reports \<open>OnCRNotFound\<close> to the status manager and
  returns the empty result with a nil error, so the request is not requeued. Nothing
  else is called.
\<close>

theorem C2_cr_not_found:
  "(asGetAPIServer ea = Inl (err, msg) \<and> IsNotFound err \<longrightarrow>
      ReconcileAPIServer_Reconcile ra ea req =
        ([Fetch (GetPrimary ''APIServer''), OnCRNotFound], Return EmptyResult None))
   \<and> (mGetMonitor em = Inl err \<and> IsNotFound err \<longrightarrow>
      ReconcileMonitor_Reconcile rm em req =
        ([Fetch (GetPrimary ''Monitor''), OnCRNotFound], Return EmptyResult None))
   \<and> (cGetCompliance ec = Inl err \<and> IsNotFound err \<longrightarrow>
      ReconcileCompliance_Reconcile rc ec req =
        ([Fetch (GetPrimary ''Compliance''), OnCRNotFound], Return EmptyResult None))"
  by (simp add: ReconcileAPIServer_Reconcile_def ReconcileMonitor_Reconcile_def
      ReconcileCompliance_Reconcile_def emit_def return_def)

theorem C2_cr_not_found_witness:
  "ReconcileAPIServer_Reconcile sampleAPIServerReconciler
     (sampleAPIServerEnv\<lparr>asGetAPIServer := Inl (NotFoundError ''apiserver not found'', ''not found'')\<rparr>)
     sampleRequest =
     ([Fetch (GetPrimary ''APIServer''), OnCRNotFound], Return \<lparr>Requeue = False, RequeueAfter = 0\<rparr> None)
   \<and> ReconcileMonitor_Reconcile sampleMonitorReconciler
     (sampleMonitorEnv\<lparr>mGetMonitor := Inl (NotFoundError ''apiserver not found'')\<rparr>)
     sampleRequest =
     ([Fetch (GetPrimary ''Monitor''), OnCRNotFound], Return \<lparr>Requeue = False, RequeueAfter = 0\<rparr> None)
   \<and> ReconcileCompliance_Reconcile sampleComplianceReconciler
     (sampleComplianceEnv\<lparr>cGetCompliance := Inl (NotFoundError ''apiserver not found'')\<rparr>)
     sampleRequest =
     ([Fetch (GetPrimary ''Compliance''), OnCRNotFound], Return \<lparr>Requeue = False, RequeueAfter = 0\<rparr> None)"
  using C2_cr_not_found
    [where ea = "sampleAPIServerEnv\<lparr>asGetAPIServer := Inl (NotFoundError ''apiserver not found'', ''not found'')\<rparr>"
       and err = "NotFoundError ''apiserver not found''" and msg = "''not found''"
       and em = "sampleMonitorEnv\<lparr>mGetMonitor := Inl (NotFoundError ''apiserver not found'')\<rparr>"
       and ec = "sampleComplianceEnv\<lparr>cGetCompliance := Inl (NotFoundError ''apiserver not found'')\<rparr>"
       and ra = sampleAPIServerReconciler and rm = sampleMonitorReconciler and rc = sampleComplianceReconciler
       and req = sampleRequest]
  by (simp add: EmptyResult_def)

lemma DeepEqual_map_of: "DeepEqual a b \<longleftrightarrow> map_of a = map_of b"
proof
  assume h: "DeepEqual a b"
  show "map_of a = map_of b"
  proof
    fix k
    show "map_of a k = map_of b k"
    proof (cases "k \<in> set (map fst a @ map fst b)")
      case True
      with h show ?thesis by (simp add: DeepEqual_def list_all_iff)
    next
      case False
      then have "map_of a k = None" "map_of b k = None"
        by (auto simp: map_of_eq_None_iff)
      then show ?thesis by simp
    qed
  qed
next
  assume "map_of a = map_of b"
  then show "DeepEqual a b" by (simp add: DeepEqual_def list_all_iff)
qed

lemma ApplyComponents_applied:
  "CreateOrUpdateOrDelete c e \<in> set (fst (ApplyComponents f (\<lambda>err. SetDegraded reason (g err)) cs k)) \<Longrightarrow>
   c \<in> set cs \<or> CreateOrUpdateOrDelete c e \<in> set (fst k)"
  by (induction cs) (auto simp: run_defs split: option.splits)

lemma Monitor_finish_no_apply:
  "CreateOrUpdateOrDelete c e \<notin> set (fst (Monitor_finish env instance))"
  by (simp add: Monitor_finish_def run_defs Let_def status_SetDegraded_def Reconciler_SetDegraded_def
      split: option.splits)

lemma readAlertmanagerConfigSecret_no_apply:
  "CreateOrUpdateOrDelete c e \<notin> set (fst (readAlertmanagerConfigSecret env))"
  by (simp add: readAlertmanagerConfigSecret_def Let_def split: sum.splits option.splits)

text \<open>
  C10. \<open>readAlertmanagerConfigSecret\<close> resolves the Alertmanager configuration secret in a
  fixed order. A secret in the operator namespace is returned as it is, with the flag
  \<open>createInOperatorNamespace\<close> false. Otherwise a secret in the Prometheus namespace is
  copied to the operator namespace: with the flag true when its data equal the embedded
  default configuration, and with the flag false, the copy being created directly, when
  they differ. With no secret in either namespace the default secret is returned with the
  flag true. The list of components ends with the passthrough of the secret exactly when
  the flag is true, and a passthrough that the reconcile applies is the one of a secret
  returned with the flag true.
\<close>

theorem C10_alertmanager_secret_precedence:
  "(mGetSecret env AlertmanagerConfigSecret OperatorNamespace = Inr (Some s) \<longrightarrow>
      readAlertmanagerConfigSecret env =
        ([Fetch (GetSecret AlertmanagerConfigSecret OperatorNamespace)], Inr (s, False)))
   \<and> (mGetSecret env AlertmanagerConfigSecret OperatorNamespace = Inr None \<longrightarrow>
        (mGetSecret env AlertmanagerConfigSecret TigeraPrometheusNamespace = Inr (Some s) \<longrightarrow>
           (map_of (objData s) = map_of [(''alertmanager.yaml'', mAlertmanagerConfig env)] \<longrightarrow>
              readAlertmanagerConfigSecret env =
                ([Fetch (GetSecret AlertmanagerConfigSecret OperatorNamespace),
                  Fetch (GetSecret AlertmanagerConfigSecret TigeraPrometheusNamespace)],
                 Inr (s\<lparr>objNamespace := OperatorNamespace\<rparr>, True)))
           \<and> (map_of (objData s) \<noteq> map_of [(''alertmanager.yaml'', mAlertmanagerConfig env)] \<longrightarrow>
                mCreate env (s\<lparr>objNamespace := OperatorNamespace\<rparr>) = None \<longrightarrow>
              readAlertmanagerConfigSecret env =
                ([Fetch (GetSecret AlertmanagerConfigSecret OperatorNamespace),
                  Fetch (GetSecret AlertmanagerConfigSecret TigeraPrometheusNamespace),
                  Create (s\<lparr>objNamespace := OperatorNamespace\<rparr>) None],
                 Inr (s\<lparr>objNamespace := OperatorNamespace\<rparr>, False))))
        \<and> (mGetSecret env AlertmanagerConfigSecret TigeraPrometheusNamespace = Inr None \<longrightarrow>
              readAlertmanagerConfigSecret env =
                ([Fetch (GetSecret AlertmanagerConfigSecret OperatorNamespace),
                  Fetch (GetSecret AlertmanagerConfigSecret TigeraPrometheusNamespace)],
                 Inr (\<lparr>objKind = ''Secret'', objNamespace = OperatorNamespace, objName = AlertmanagerConfigSecret,
                       objData = [(''alertmanager.yaml'', mAlertmanagerConfig env)]\<rparr>, True))))
   \<and> (Passthrough objs \<in> set (Monitor_components r install pullSecrets secret flag kvc serverTLS clientTLS bundle incl)
        \<longleftrightarrow> flag \<and> objs = [secret])
   \<and> (CreateOrUpdateOrDelete (Passthrough objs) e
          \<in> set (fst (Monitor_render r env instance variant install pullSecrets kvc serverTLS clientTLS bundle incl)) \<longrightarrow>
        (\<exists>secret'. snd (readAlertmanagerConfigSecret env) = Inr (secret', True) \<and> objs = [secret']))"
proof (intro conjI impI)
  assume "CreateOrUpdateOrDelete (Passthrough objs) e
          \<in> set (fst (Monitor_render r env instance variant install pullSecrets kvc serverTLS clientTLS bundle incl))"
  then show "\<exists>secret'. snd (readAlertmanagerConfigSecret env) = Inr (secret', True) \<and> objs = [secret']"
    by (auto simp: Monitor_render_def run_defs Let_def readAlertmanagerConfigSecret_no_apply
        Monitor_finish_no_apply status_SetDegraded_def Reconciler_SetDegraded_def Monitor_components_def
        split: sum.splits option.splits prod.splits if_splits dest!: ApplyComponents_applied)
qed (auto simp: readAlertmanagerConfigSecret_def Let_def CopyToNamespace_def DeepEqual_map_of
      Monitor_components_def)

theorem C10_alertmanager_secret_precedence_witness:
  "readAlertmanagerConfigSecret
     (sampleMonitorEnv\<lparr>mGetSecret := (\<lambda>name namespace.
        if namespace = OperatorNamespace
        then Inr (Some \<lparr>objKind = ''Secret'', objNamespace = OperatorNamespace, objName = name,
                          objData = [(''alertmanager.yaml'', ''route: {}'')]\<rparr>)
        else Inr None)\<rparr>) =
     ([Fetch (GetSecret AlertmanagerConfigSecret OperatorNamespace)],
      Inr (\<lparr>objKind = ''Secret'', objNamespace = OperatorNamespace, objName = AlertmanagerConfigSecret,
            objData = [(''alertmanager.yaml'', ''route: {}'')]\<rparr>, False))
   \<and> snd (readAlertmanagerConfigSecret
          (sampleMonitorEnv\<lparr>mGetSecret := (\<lambda>name namespace.
             if namespace = OperatorNamespace then Inr None
             else Inr (Some \<lparr>objKind = ''Secret'', objNamespace = namespace, objName = name,
                               objData = [(''alertmanager.yaml'', ''global: {}'')]\<rparr>))\<rparr>)) =
       Inr (\<lparr>objKind = ''Secret'', objNamespace = ''tigera-operator'', objName = AlertmanagerConfigSecret,
             objData = [(''alertmanager.yaml'', ''global: {}'')]\<rparr>, True)
   \<and> readAlertmanagerConfigSecret
       (sampleMonitorEnv\<lparr>mGetSecret := (\<lambda>name namespace.
          if namespace = OperatorNamespace then Inr None
          else Inr (Some \<lparr>objKind = ''Secret'', objNamespace = namespace, objName = name,
                            objData = [(''alertmanager.yaml'', ''route: {}'')]\<rparr>))\<rparr>) =
       ([Fetch (GetSecret AlertmanagerConfigSecret OperatorNamespace),
         Fetch (GetSecret AlertmanagerConfigSecret TigeraPrometheusNamespace),
         Create \<lparr>objKind = ''Secret'', objNamespace = ''tigera-operator'', objName = AlertmanagerConfigSecret,
                 objData = [(''alertmanager.yaml'', ''route: {}'')]\<rparr> None],
        Inr (\<lparr>objKind = ''Secret'', objNamespace = ''tigera-operator'', objName = AlertmanagerConfigSecret,
              objData = [(''alertmanager.yaml'', ''route: {}'')]\<rparr>, False))
   \<and> snd (readAlertmanagerConfigSecret sampleMonitorEnv) =
       Inr (\<lparr>objKind = ''Secret'', objNamespace = ''tigera-operator'', objName = AlertmanagerConfigSecret,
             objData = [(''alertmanager.yaml'', ''global: {}'')]\<rparr>, True)"
proof -
  let ?user = "\<lambda>name namespace. \<lparr>objKind = ''Secret'', objNamespace = namespace, objName = name,
                 objData = [(''alertmanager.yaml'', ''route: {}'')]\<rparr>"
  let ?dflt = "\<lambda>name namespace. \<lparr>objKind = ''Secret'', objNamespace = namespace, objName = name,
                 objData = [(''alertmanager.yaml'', ''global: {}'')]\<rparr>"
  let ?env1 = "sampleMonitorEnv\<lparr>mGetSecret := (\<lambda>name namespace.
        if namespace = OperatorNamespace then Inr (Some (?user name OperatorNamespace)) else Inr None)\<rparr>"
  let ?env2 = "sampleMonitorEnv\<lparr>mGetSecret := (\<lambda>name namespace.
        if namespace = OperatorNamespace then Inr None else Inr (Some (?dflt name namespace)))\<rparr>"
  let ?env3 = "sampleMonitorEnv\<lparr>mGetSecret := (\<lambda>name namespace.
        if namespace = OperatorNamespace then Inr None else Inr (Some (?user name namespace)))\<rparr>"
  have op1: "mGetSecret ?env1 AlertmanagerConfigSecret OperatorNamespace
               = Inr (Some (?user AlertmanagerConfigSecret OperatorNamespace))"
    by simp
  have op2: "mGetSecret ?env2 AlertmanagerConfigSecret OperatorNamespace = Inr None"
    and pr2: "mGetSecret ?env2 AlertmanagerConfigSecret TigeraPrometheusNamespace
               = Inr (Some (?dflt AlertmanagerConfigSecret TigeraPrometheusNamespace))"
    and eq2: "map_of (objData (?dflt AlertmanagerConfigSecret TigeraPrometheusNamespace))
               = map_of [(''alertmanager.yaml'', mAlertmanagerConfig ?env2)]"
    by (simp_all add: OperatorNamespace_def TigeraPrometheusNamespace_def sampleMonitorEnv_def)
  have op3: "mGetSecret ?env3 AlertmanagerConfigSecret OperatorNamespace = Inr None"
    and pr3: "mGetSecret ?env3 AlertmanagerConfigSecret TigeraPrometheusNamespace
               = Inr (Some (?user AlertmanagerConfigSecret TigeraPrometheusNamespace))"
    and cr3: "mCreate ?env3 ((?user AlertmanagerConfigSecret TigeraPrometheusNamespace)\<lparr>objNamespace := OperatorNamespace\<rparr>) = None"
    by (simp_all add: OperatorNamespace_def TigeraPrometheusNamespace_def sampleMonitorEnv_def)
  have ne3: "map_of (objData (?user AlertmanagerConfigSecret TigeraPrometheusNamespace))
               \<noteq> map_of [(''alertmanager.yaml'', mAlertmanagerConfig ?env3)]"
  proof
    assume "map_of (objData (?user AlertmanagerConfigSecret TigeraPrometheusNamespace))
              = map_of [(''alertmanager.yaml'', mAlertmanagerConfig ?env3)]"
    then have "map_of (objData (?user AlertmanagerConfigSecret TigeraPrometheusNamespace)) ''alertmanager.yaml''
              = map_of [(''alertmanager.yaml'', mAlertmanagerConfig ?env3)] ''alertmanager.yaml''"
      by (rule arg_cong)
    then show False by (simp add: sampleMonitorEnv_def)
  qed
  have op4: "mGetSecret sampleMonitorEnv AlertmanagerConfigSecret OperatorNamespace = Inr None"
    and pr4: "mGetSecret sampleMonitorEnv AlertmanagerConfigSecret TigeraPrometheusNamespace = Inr None"
    by (simp_all add: sampleMonitorEnv_def)
  note t = C10_alertmanager_secret_precedence
  have r1: "readAlertmanagerConfigSecret ?env1 =
      ([Fetch (GetSecret AlertmanagerConfigSecret OperatorNamespace)],
       Inr (?user AlertmanagerConfigSecret OperatorNamespace, False))"
    using t [where env = ?env1 and s = "?user AlertmanagerConfigSecret OperatorNamespace"] op1 by blast
  have r2: "readAlertmanagerConfigSecret ?env2 =
      ([Fetch (GetSecret AlertmanagerConfigSecret OperatorNamespace),
        Fetch (GetSecret AlertmanagerConfigSecret TigeraPrometheusNamespace)],
       Inr ((?dflt AlertmanagerConfigSecret TigeraPrometheusNamespace)\<lparr>objNamespace := OperatorNamespace\<rparr>, True))"
    using t [where env = ?env2 and s = "?dflt AlertmanagerConfigSecret TigeraPrometheusNamespace"] op2 pr2 eq2
    by blast
  have r3: "readAlertmanagerConfigSecret ?env3 =
      ([Fetch (GetSecret AlertmanagerConfigSecret OperatorNamespace),
        Fetch (GetSecret AlertmanagerConfigSecret TigeraPrometheusNamespace),
        Create ((?user AlertmanagerConfigSecret TigeraPrometheusNamespace)\<lparr>objNamespace := OperatorNamespace\<rparr>) None],
       Inr ((?user AlertmanagerConfigSecret TigeraPrometheusNamespace)\<lparr>objNamespace := OperatorNamespace\<rparr>, False))"
    using t [where env = ?env3 and s = "?user AlertmanagerConfigSecret TigeraPrometheusNamespace"] op3 pr3 ne3 cr3
    by blast
  have r4: "readAlertmanagerConfigSecret sampleMonitorEnv =
      ([Fetch (GetSecret AlertmanagerConfigSecret OperatorNamespace),
        Fetch (GetSecret AlertmanagerConfigSecret TigeraPrometheusNamespace)],
       Inr (\<lparr>objKind = ''Secret'', objNamespace = OperatorNamespace, objName = AlertmanagerConfigSecret,
             objData = [(''alertmanager.yaml'', mAlertmanagerConfig sampleMonitorEnv)]\<rparr>, True))"
    using t [where env = sampleMonitorEnv] op4 pr4 by blast
  show ?thesis
    unfolding r1 r2 r3 r4
    by (simp add: OperatorNamespace_def TigeraPrometheusNamespace_def sampleMonitorEnv_def)
qed

lemmas const_defs = ResourceReadError_def ResourceNotFound_def ResourceNotReady_def ResourceCreateError_def
  ResourceUpdateError_def ResourceValidationError_def ResourceRenderingError_def TigeraStatusReady_def
  TigeraSecureEnterprise_def ProviderOpenShift_def OperatorNamespace_def TigeraPrometheusNamespace_def

lemmas APIServer_defs = ReconcileAPIServer_Reconcile_def APIServer_statusConditions_def
  APIServer_enterpriseData_def APIServer_tunnelSecret_def APIServer_amazon_def APIServer_render_def
  APIServer_packetCapture_def APIServer_finish_def APIServer_ResourceName_def

lemmas Monitor_defs = ReconcileMonitor_Reconcile_def Monitor_statusConditions_def Monitor_installation_def
  Monitor_certificates_def Monitor_authentication_def Monitor_networkPolicyGuards_def Monitor_render_def
  Monitor_components_def Monitor_finish_def Monitor_ResourceName_def readAlertmanagerConfigSecret_def

lemmas Compliance_defs = ReconcileCompliance_Reconcile_def Compliance_statusConditions_def
  Compliance_readiness_def Compliance_installation_def Compliance_managementCluster_def
  Compliance_certificates_def Compliance_managerInternalTLSSecret_def Compliance_serverCertSecret_def
  Compliance_authentication_def Compliance_render_def Compliance_finish_def Compliance_ResourceName_def

lemmas SetDegraded_defs = Reconciler_SetDegraded_def status_SetDegraded_def

lemmas sample_defs = sampleInstance_def sampleInstallation_def sampleKeyPair_def sampleTigeraStatus_def
  sampleRequest_def sampleAPIServerReconciler_def sampleAPIServerEnv_def sampleMonitorReconciler_def
  sampleMonitorEnv_def sampleComplianceReconciler_def sampleComplianceEnv_def

text \<open>
  C4, as stated, fails. The APIServer controller reads the two resources only for the
  variant \<open>TigeraSecureEnterprise\<close>: for another variant both may exist and the reconcile
  applies its components and returns no error. The Compliance controller reads them only
  after its readiness guards: while the API server is not ready it returns the empty
  result with a nil error and the reason \<open>ResourceNotReady\<close>.
\<close>

theorem C4_counterexample:
  "snd (ReconcileAPIServer_Reconcile sampleAPIServerReconciler
          (sampleAPIServerEnv
             \<lparr>asGetInstallation := Inr (''Calico'', \<lparr>instVariant = ''Calico'', instRegistry = []\<rparr>),
              asGetManagementCluster := Inr (Some \<lparr>mcAddr = ''10.128.0.10:30449''\<rparr>),
              asGetManagementClusterConnection :=
                Inr (Some \<lparr>mccManagementClusterAddr = ''10.128.0.10:30449'', mccConditions = []\<rparr>)\<rparr>)
          sampleRequest)
     = Return \<lparr>Requeue = False, RequeueAfter = 0\<rparr> None
   \<and> length (appliedComponents (fst (ReconcileAPIServer_Reconcile sampleAPIServerReconciler
          (sampleAPIServerEnv
             \<lparr>asGetInstallation := Inr (''Calico'', \<lparr>instVariant = ''Calico'', instRegistry = []\<rparr>),
              asGetManagementCluster := Inr (Some \<lparr>mcAddr = ''10.128.0.10:30449''\<rparr>),
              asGetManagementClusterConnection :=
                Inr (Some \<lparr>mccManagementClusterAddr = ''10.128.0.10:30449'', mccConditions = []\<rparr>)\<rparr>)
          sampleRequest))) = 2
   \<and> ReconcileCompliance_Reconcile sampleComplianceReconciler
          (sampleComplianceEnv
             \<lparr>cIsAPIServerReady := False,
              cGetManagementCluster := Inr (Some \<lparr>mcAddr = ''10.128.0.10:30449''\<rparr>),
              cGetManagementClusterConnection :=
                Inr (Some \<lparr>mccManagementClusterAddr = ''10.128.0.10:30449'', mccConditions = []\<rparr>)\<rparr>)
          sampleRequest
     = ([Fetch (GetPrimary ''Compliance''), OnCRFound, Fetch IsAPIServerReady,
         SetDegraded ''ResourceNotReady'' ''Waiting for Tigera API server to be ready'',
         SetMetaData ''tigera-secure'' 2],
        Return \<lparr>Requeue = False, RequeueAfter = 0\<rparr> None)"
  by (simp add: APIServer_defs Compliance_defs sample_defs run_defs const_defs SetDegraded_defs Let_def
      EmptyResult_def APIServerNamespace_def ProjectCalicoApiServerTLSSecretName_def)

text \<open>
  C4, amended. When \<open>Reconcile\<close> gets as far as reading the ManagementCluster and the
  ManagementClusterConnection (in the APIServer controller: the custom resource is found,
  the request is not the one for the TigeraStatus, the installation has the variant
  \<open>TigeraSecureEnterprise\<close>, the certificate manager, the TLS key pair and the pull
  secrets are there; in the Compliance controller: every guard before line 816 passed) and
  both resources exist, it sets the degraded status with the reason
  \<open>ResourceValidationError\<close>, returns the error that having both is not supported, and
  neither renders nor applies a component.
\<close>

theorem C4_both_management_resources:
  "(asGetAPIServer ea = Inr inst
      \<and> \<not> (reqName req = APIServer_ResourceName \<and> reqNamespace req = [])
      \<and> asGetInstallation ea = Inr (TigeraSecureEnterprise, network)
      \<and> asCertificateManagerCreate ea = Inr certificateManager
      \<and> asGetOrCreateKeyPair ea (ProjectCalicoApiServerTLSSecretName (instVariant network)) = Inr tlsSecret
      \<and> asGetNetworkingPullSecrets ea = Inr pullSecrets
      \<and> asGetManagementCluster ea = Inr (Some mc)
      \<and> asGetManagementClusterConnection ea = Inr (Some mcc)
    \<longrightarrow> ReconcileAPIServer_Reconcile ra ea req =
          ([Fetch (GetPrimary ''APIServer''), OnCRFound, Fetch GetInstallation, Fetch CertificateManagerCreate,
            Fetch (GetOrCreateKeyPair (ProjectCalicoApiServerTLSSecretName (instVariant network))),
            AddToStatusManager (APIServerNamespace TigeraSecureEnterprise),
            Fetch GetNetworkingPullSecrets, Fetch GetManagementCluster, Fetch GetManagementClusterConnection,
            SetDegraded ResourceValidationError
              '' - Error: having both a ManagementCluster and a ManagementClusterConnection is not supported''],
           Return EmptyResult
             (Some (OtherError ''having both a ManagementCluster and a ManagementClusterConnection is not supported''))))
   \<and> (cGetCompliance ec = Inr inst
      \<and> (reqName req = Compliance_ResourceName \<and> reqNamespace req = [] \<longrightarrow>
           cGetTigeraStatus ec = Inr ts
           \<and> cStatusUpdate ec (inst\<lparr>crConditions :=
                 UpdateStatusCondition2 (crConditions inst) (tsConditions ts)\<rparr>) = None)
      \<and> cIsAPIServerReady ec \<and> rcPolicyWatchesReady rc \<and> cGetTier ec = None \<and> rcLicenseAPIReady rc
      \<and> cFetchLicenseKey ec = Inr license
      \<and> cGetInstallation ec = Inr (variant, network)
      \<and> cGetNetworkingPullSecrets ec = Inr pullSecrets
      \<and> cGetElasticsearchClusterConfig ec = Inr esClusterConfig
      \<and> cGetManagementCluster ec = Inr (Some mc)
      \<and> cGetManagementClusterConnection ec = Inr (Some mcc)
    \<longrightarrow> snd (ReconcileCompliance_Reconcile rc ec req) =
            Return EmptyResult
              (Some (OtherError ''having both a ManagementCluster and a ManagementClusterConnection is not supported''))
        \<and> lastCall (fst (ReconcileCompliance_Reconcile rc ec req)) =
            Some (SetDegraded ResourceValidationError
              '' - Error: having both a ManagementCluster and a ManagementClusterConnection is not supported'')
        \<and> \<not> list_ex isApply (fst (ReconcileCompliance_Reconcile rc ec req)))"
proof (intro conjI impI)
  assume "asGetAPIServer ea = Inr inst
      \<and> \<not> (reqName req = APIServer_ResourceName \<and> reqNamespace req = [])
      \<and> asGetInstallation ea = Inr (TigeraSecureEnterprise, network)
      \<and> asCertificateManagerCreate ea = Inr certificateManager
      \<and> asGetOrCreateKeyPair ea (ProjectCalicoApiServerTLSSecretName (instVariant network)) = Inr tlsSecret
      \<and> asGetNetworkingPullSecrets ea = Inr pullSecrets
      \<and> asGetManagementCluster ea = Inr (Some mc)
      \<and> asGetManagementClusterConnection ea = Inr (Some mcc)"
  then show "ReconcileAPIServer_Reconcile ra ea req =
          ([Fetch (GetPrimary ''APIServer''), OnCRFound, Fetch GetInstallation, Fetch CertificateManagerCreate,
            Fetch (GetOrCreateKeyPair (ProjectCalicoApiServerTLSSecretName (instVariant network))),
            AddToStatusManager (APIServerNamespace TigeraSecureEnterprise),
            Fetch GetNetworkingPullSecrets, Fetch GetManagementCluster, Fetch GetManagementClusterConnection,
            SetDegraded ResourceValidationError
              '' - Error: having both a ManagementCluster and a ManagementClusterConnection is not supported''],
           Return EmptyResult
             (Some (OtherError ''having both a ManagementCluster and a ManagementClusterConnection is not supported'')))"
    by (auto simp: ReconcileAPIServer_Reconcile_def APIServer_enterpriseData_def run_defs Let_def
        SetDegraded_defs TigeraSecureEnterprise_def)
next
  assume h: "cGetCompliance ec = Inr inst
      \<and> (reqName req = Compliance_ResourceName \<and> reqNamespace req = [] \<longrightarrow>
           cGetTigeraStatus ec = Inr ts
           \<and> cStatusUpdate ec (inst\<lparr>crConditions :=
                 UpdateStatusCondition2 (crConditions inst) (tsConditions ts)\<rparr>) = None)
      \<and> cIsAPIServerReady ec \<and> rcPolicyWatchesReady rc \<and> cGetTier ec = None \<and> rcLicenseAPIReady rc
      \<and> cFetchLicenseKey ec = Inr license
      \<and> cGetInstallation ec = Inr (variant, network)
      \<and> cGetNetworkingPullSecrets ec = Inr pullSecrets
      \<and> cGetElasticsearchClusterConfig ec = Inr esClusterConfig
      \<and> cGetManagementCluster ec = Inr (Some mc)
      \<and> cGetManagementClusterConnection ec = Inr (Some mcc)"
  then show "snd (ReconcileCompliance_Reconcile rc ec req) =
            Return EmptyResult
              (Some (OtherError ''having both a ManagementCluster and a ManagementClusterConnection is not supported''))"
    by (cases "reqName req = Compliance_ResourceName \<and> reqNamespace req = []")
       (auto simp: ReconcileCompliance_Reconcile_def Compliance_statusConditions_def Compliance_readiness_def
         Compliance_installation_def Compliance_managementCluster_def run_defs Let_def SetDegraded_defs)
  from h show "lastCall (fst (ReconcileCompliance_Reconcile rc ec req)) =
            Some (SetDegraded ResourceValidationError
              '' - Error: having both a ManagementCluster and a ManagementClusterConnection is not supported'')"
    by (cases "reqName req = Compliance_ResourceName \<and> reqNamespace req = []")
       (auto simp: ReconcileCompliance_Reconcile_def Compliance_statusConditions_def Compliance_readiness_def
         Compliance_installation_def Compliance_managementCluster_def run_defs Let_def SetDegraded_defs
         lastCall_def)
  from h show "\<not> list_ex isApply (fst (ReconcileCompliance_Reconcile rc ec req))"
    by (cases "reqName req = Compliance_ResourceName \<and> reqNamespace req = []")
       (auto simp: ReconcileCompliance_Reconcile_def Compliance_statusConditions_def Compliance_readiness_def
         Compliance_installation_def Compliance_managementCluster_def run_defs Let_def SetDegraded_defs)
qed

theorem C4_both_management_resources_witness:
  "ReconcileAPIServer_Reconcile sampleAPIServerReconciler
     (sampleAPIServerEnv
        \<lparr>asGetManagementCluster := Inr (Some \<lparr>mcAddr = ''10.128.0.10:30449''\<rparr>),
         asGetManagementClusterConnection :=
           Inr (Some \<lparr>mccManagementClusterAddr = ''10.128.0.10:30449'', mccConditions = []\<rparr>)\<rparr>)
     sampleRequest =
     ([Fetch (GetPrimary ''APIServer''), OnCRFound, Fetch GetInstallation, Fetch CertificateManagerCreate,
       Fetch (GetOrCreateKeyPair (ProjectCalicoApiServerTLSSecretName ''TigeraSecureEnterprise'')),
       AddToStatusManager (APIServerNamespace ''TigeraSecureEnterprise''),
       Fetch GetNetworkingPullSecrets, Fetch GetManagementCluster, Fetch GetManagementClusterConnection,
       SetDegraded ''ResourceValidationError''
         '' - Error: having both a ManagementCluster and a ManagementClusterConnection is not supported''],
      Return \<lparr>Requeue = False, RequeueAfter = 0\<rparr>
        (Some (OtherError ''having both a ManagementCluster and a ManagementClusterConnection is not supported'')))
   \<and> snd (ReconcileCompliance_Reconcile sampleComplianceReconciler
          (sampleComplianceEnv
             \<lparr>cGetManagementCluster := Inr (Some \<lparr>mcAddr = ''10.128.0.10:30449''\<rparr>),
              cGetManagementClusterConnection :=
                Inr (Some \<lparr>mccManagementClusterAddr = ''10.128.0.10:30449'', mccConditions = []\<rparr>)\<rparr>)
          sampleRequest) =
       Return \<lparr>Requeue = False, RequeueAfter = 0\<rparr>
         (Some (OtherError ''having both a ManagementCluster and a ManagementClusterConnection is not supported''))
   \<and> \<not> list_ex isApply (fst (ReconcileCompliance_Reconcile sampleComplianceReconciler
          (sampleComplianceEnv
             \<lparr>cGetManagementCluster := Inr (Some \<lparr>mcAddr = ''10.128.0.10:30449''\<rparr>),
              cGetManagementClusterConnection :=
                Inr (Some \<lparr>mccManagementClusterAddr = ''10.128.0.10:30449'', mccConditions = []\<rparr>)\<rparr>)
          sampleRequest))"
  using C4_both_management_resources
    [where ea = "sampleAPIServerEnv
        \<lparr>asGetManagementCluster := Inr (Some \<lparr>mcAddr = ''10.128.0.10:30449''\<rparr>),
         asGetManagementClusterConnection :=
           Inr (Some \<lparr>mccManagementClusterAddr = ''10.128.0.10:30449'', mccConditions = []\<rparr>)\<rparr>"
       and ec = "sampleComplianceEnv
        \<lparr>cGetManagementCluster := Inr (Some \<lparr>mcAddr = ''10.128.0.10:30449''\<rparr>),
         cGetManagementClusterConnection :=
           Inr (Some \<lparr>mccManagementClusterAddr = ''10.128.0.10:30449'', mccConditions = []\<rparr>)\<rparr>"
       and ra = sampleAPIServerReconciler and rc = sampleComplianceReconciler and req = sampleRequest
       and inst = sampleInstance and network = sampleInstallation and variant = TigeraSecureEnterprise
       and certificateManager = "\<lparr>cmKeyPair = sampleKeyPair ''tigera-ca-private''\<rparr>"
       and tlsSecret = "sampleKeyPair (ProjectCalicoApiServerTLSSecretName TigeraSecureEnterprise)"
       and pullSecrets = "[]" and mc = "\<lparr>mcAddr = ''10.128.0.10:30449''\<rparr>"
       and mcc = "\<lparr>mccManagementClusterAddr = ''10.128.0.10:30449'', mccConditions = []\<rparr>"
       and license = "\<lparr>licFeatures = [''compliance-reports'']\<rparr>" and esClusterConfig = "''cluster''"]
  by (simp add: sample_defs const_defs EmptyResult_def APIServer_ResourceName_def Compliance_ResourceName_def)

lemma setCondition_mem: "n \<in> set (setCondition n cs)"
  by (induction cs) auto

lemma setCondition_keeps: "x \<in> set cs \<Longrightarrow> condType x \<noteq> condType n \<Longrightarrow> x \<in> set (setCondition n cs)"
  by (induction cs) auto

lemma conditionTypeName_inj: "conditionTypeName a = conditionTypeName b \<longleftrightarrow> a = b"
  by (cases a; cases b) simp_all

lemma UpdateStatusCondition_keeps:
  "x \<in> set old \<Longrightarrow> \<forall>c\<in>set cs. conditionTypeName (tscType c) \<noteq> condType x \<Longrightarrow>
   x \<in> set (UpdateStatusCondition old cs g)"
  by (induction cs arbitrary: old) (auto simp: setCondition_keeps toCondition_def)

lemma UpdateStatusCondition_mem:
  "distinct (map tscType cs) \<Longrightarrow> c \<in> set cs \<Longrightarrow> toCondition g c \<in> set (UpdateStatusCondition old cs g)"
proof (induction cs arbitrary: old)
  case Nil
  then show ?case by simp
next
  case (Cons a cs)
  show ?case
  proof (cases "c = a")
    case True
    have "tscType a \<notin> tscType ` set cs"
      using Cons.prems(1) by simp
    then have "\<forall>d\<in>set cs. tscType d \<noteq> tscType a"
      by (metis imageI)
    then have "\<forall>d\<in>set cs. conditionTypeName (tscType d) \<noteq> condType (toCondition g a)"
      by (simp add: toCondition_def conditionTypeName_inj)
    then show ?thesis
      using True by (simp add: UpdateStatusCondition_keeps setCondition_mem)
  next
    case False
    with Cons show ?thesis by simp
  qed
qed

lemma UpdateStatusCondition2_keeps:
  "x \<in> set old \<Longrightarrow> \<forall>c\<in>set cs. conditionTypeName (tscType c) \<noteq> condType x \<Longrightarrow>
   x \<in> set (UpdateStatusCondition2 old cs)"
  by (induction cs arbitrary: old) (auto simp: setCondition_keeps toCondition_def)

lemma UpdateStatusCondition2_mem:
  "distinct (map tscType cs) \<Longrightarrow> c \<in> set cs \<Longrightarrow>
   toCondition (tscObservedGeneration c) c \<in> set (UpdateStatusCondition2 old cs)"
proof (induction cs arbitrary: old)
  case Nil
  then show ?case by simp
next
  case (Cons a cs)
  show ?case
  proof (cases "c = a")
    case True
    have "tscType a \<notin> tscType ` set cs"
      using Cons.prems(1) by simp
    then have "\<forall>d\<in>set cs. tscType d \<noteq> tscType a"
      by (metis imageI)
    then have "\<forall>d\<in>set cs. conditionTypeName (tscType d) \<noteq> condType (toCondition (tscObservedGeneration a) a)"
      by (simp add: toCondition_def conditionTypeName_inj)
    then show ?thesis
      using True by (simp add: UpdateStatusCondition2_keeps setCondition_mem)
  next
    case False
    with Cons show ?thesis by simp
  qed
qed

text \<open>
  C9, as stated, fails for the Monitor and the Compliance controller: they call
  \<open>UpdateStatusCondition\<close> with the conditions of the custom resource and of the
  TigeraStatus only, so the generation of the custom resource is not an input of the
  copy. On the sample the custom resource has generation 2 and the TigeraStatus conditions
  carry the observed generation 1; the conditions written to the status subresource carry
  1, not 2.
\<close>

theorem C9_counterexample:
  "crGeneration sampleInstance = 2
   \<and> fst (ReconcileMonitor_Reconcile sampleMonitorReconciler sampleMonitorEnv
            \<lparr>reqNamespace = [], reqName = ''monitor''\<rparr>) ! 3 =
       StatusUpdate
         (sampleInstance\<lparr>crConditions :=
            [\<lparr>condType = ''Ready'', condStatus = ''True'', condObservedGeneration = 1,
              condReason = ''AllObjectsAvailable'', condMessage = ''All Objects are available''\<rparr>,
             \<lparr>condType = ''Progressing'', condStatus = ''False'', condObservedGeneration = 1,
              condReason = ''NotApplicable'', condMessage = ''Not Applicable''\<rparr>,
             \<lparr>condType = ''Degraded'', condStatus = ''False'', condObservedGeneration = 1,
              condReason = ''NotApplicable'', condMessage = ''Not Applicable''\<rparr>]\<rparr>)
         None
   \<and> fst (ReconcileCompliance_Reconcile sampleComplianceReconciler sampleComplianceEnv
            \<lparr>reqNamespace = [], reqName = ''compliance''\<rparr>) ! 3 =
       StatusUpdate
         (sampleInstance\<lparr>crConditions :=
            [\<lparr>condType = ''Ready'', condStatus = ''True'', condObservedGeneration = 1,
              condReason = ''AllObjectsAvailable'', condMessage = ''All Objects are available''\<rparr>,
             \<lparr>condType = ''Progressing'', condStatus = ''False'', condObservedGeneration = 1,
              condReason = ''NotApplicable'', condMessage = ''Not Applicable''\<rparr>,
             \<lparr>condType = ''Degraded'', condStatus = ''False'', condObservedGeneration = 1,
              condReason = ''NotApplicable'', condMessage = ''Not Applicable''\<rparr>]\<rparr>)
         None"
  by (simp add: ReconcileMonitor_Reconcile_def Monitor_statusConditions_def Monitor_ResourceName_def
      ReconcileCompliance_Reconcile_def Compliance_statusConditions_def Compliance_ResourceName_def
      sample_defs run_defs Let_def toCondition_def numeral_3_eq_3)

text \<open>
  C9, amended. For the request named after the controller with an empty namespace, once
  the custom resource and the TigeraStatus are fetched, each controller writes the
  TigeraStatus conditions into \<open>Status.Conditions\<close> of the custom resource (\<open>Available\<close>
  becomes type \<open>Ready\<close>, \<open>Progressing\<close> and \<open>Degraded\<close> keep their names; status, reason
  and message are copied; one condition for each type of the TigeraStatus) and updates the
  status subresource. Only the APIServer controller passes the generation of the custom
  resource, which becomes the \<open>ObservedGeneration\<close> of each condition; it then returns the
  empty result with the error of the update, if any, and calls nothing else. The Monitor
  and the Compliance controller go on after a successful update: the next call is the
  fetch of the installation, respectively the check that the API server is ready.
\<close>

theorem C9_status_conditions:
  "(asGetAPIServer ea = Inr inst \<and> reqName req = ''apiserver'' \<and> reqNamespace req = []
      \<and> asGetTigeraStatus ea = Inr ts
    \<longrightarrow> ReconcileAPIServer_Reconcile ra ea req =
          ([Fetch (GetPrimary ''APIServer''), OnCRFound, Fetch (GetTigeraStatus ''apiserver''),
            StatusUpdate
              (inst\<lparr>crConditions := UpdateStatusCondition (crConditions inst) (tsConditions ts) (crGeneration inst)\<rparr>)
              (asStatusUpdate ea
                (inst\<lparr>crConditions := UpdateStatusCondition (crConditions inst) (tsConditions ts) (crGeneration inst)\<rparr>))],
           Return EmptyResult
             (asStatusUpdate ea
               (inst\<lparr>crConditions := UpdateStatusCondition (crConditions inst) (tsConditions ts) (crGeneration inst)\<rparr>))))
   \<and> (distinct (map tscType cs) \<and> c \<in> set cs \<longrightarrow>
        \<lparr>condType = conditionTypeName (tscType c), condStatus = tscStatus c, condObservedGeneration = g,
         condReason = tscReason c, condMessage = tscMessage c\<rparr> \<in> set (UpdateStatusCondition old cs g)
        \<and> (\<exists>n. \<lparr>condType = conditionTypeName (tscType c), condStatus = tscStatus c, condObservedGeneration = n,
                 condReason = tscReason c, condMessage = tscMessage c\<rparr> \<in> set (UpdateStatusCondition2 old cs)))
   \<and> conditionTypeName ComponentAvailable = ''Ready''
   \<and> conditionTypeName ComponentProgressing = ''Progressing''
   \<and> conditionTypeName ComponentDegraded = ''Degraded''
   \<and> (mGetMonitor em = Inr inst \<and> reqName req = ''monitor'' \<and> reqNamespace req = []
      \<and> mGetTigeraStatus em = Inr ts
      \<and> mStatusUpdate em (inst\<lparr>crConditions := UpdateStatusCondition2 (crConditions inst) (tsConditions ts)\<rparr>) = None
    \<longrightarrow> (\<exists>rest. fst (ReconcileMonitor_Reconcile rm em req) =
          [Fetch (GetPrimary ''Monitor''), OnCRFound, Fetch (GetTigeraStatus ''monitor''),
           StatusUpdate (inst\<lparr>crConditions := UpdateStatusCondition2 (crConditions inst) (tsConditions ts)\<rparr>) None,
           Fetch GetInstallation] @ rest))
   \<and> (cGetCompliance ec = Inr inst \<and> reqName req = ''compliance'' \<and> reqNamespace req = []
      \<and> cGetTigeraStatus ec = Inr ts
      \<and> cStatusUpdate ec (inst\<lparr>crConditions := UpdateStatusCondition2 (crConditions inst) (tsConditions ts)\<rparr>) = None
    \<longrightarrow> (\<exists>rest. fst (ReconcileCompliance_Reconcile rc ec req) =
          [Fetch (GetPrimary ''Compliance''), OnCRFound, Fetch (GetTigeraStatus ''compliance''),
           StatusUpdate (inst\<lparr>crConditions := UpdateStatusCondition2 (crConditions inst) (tsConditions ts)\<rparr>) None,
           Fetch IsAPIServerReady] @ rest))"
proof (intro conjI impI)
  assume "distinct (map tscType cs) \<and> c \<in> set cs"
  then have d: "distinct (map tscType cs)" and m: "c \<in> set cs" by simp_all
  from UpdateStatusCondition_mem [OF d m, of g old]
  show "\<lparr>condType = conditionTypeName (tscType c), condStatus = tscStatus c, condObservedGeneration = g,
         condReason = tscReason c, condMessage = tscMessage c\<rparr> \<in> set (UpdateStatusCondition old cs g)"
    by (simp add: toCondition_def)
  from UpdateStatusCondition2_mem [OF d m, of old]
  show "\<exists>n. \<lparr>condType = conditionTypeName (tscType c), condStatus = tscStatus c, condObservedGeneration = n,
                 condReason = tscReason c, condMessage = tscMessage c\<rparr> \<in> set (UpdateStatusCondition2 old cs)"
    by (auto simp: toCondition_def)
next
  assume "mGetMonitor em = Inr inst \<and> reqName req = ''monitor'' \<and> reqNamespace req = []
      \<and> mGetTigeraStatus em = Inr ts
      \<and> mStatusUpdate em (inst\<lparr>crConditions := UpdateStatusCondition2 (crConditions inst) (tsConditions ts)\<rparr>) = None"
  then show "\<exists>rest. fst (ReconcileMonitor_Reconcile rm em req) =
          [Fetch (GetPrimary ''Monitor''), OnCRFound, Fetch (GetTigeraStatus ''monitor''),
           StatusUpdate (inst\<lparr>crConditions := UpdateStatusCondition2 (crConditions inst) (tsConditions ts)\<rparr>) None,
           Fetch GetInstallation] @ rest"
    by (simp add: ReconcileMonitor_Reconcile_def Monitor_statusConditions_def Monitor_ResourceName_def
        Monitor_installation_def run_defs Let_def)
next
  assume "cGetCompliance ec = Inr inst \<and> reqName req = ''compliance'' \<and> reqNamespace req = []
      \<and> cGetTigeraStatus ec = Inr ts
      \<and> cStatusUpdate ec (inst\<lparr>crConditions := UpdateStatusCondition2 (crConditions inst) (tsConditions ts)\<rparr>) = None"
  then show "\<exists>rest. fst (ReconcileCompliance_Reconcile rc ec req) =
          [Fetch (GetPrimary ''Compliance''), OnCRFound, Fetch (GetTigeraStatus ''compliance''),
           StatusUpdate (inst\<lparr>crConditions := UpdateStatusCondition2 (crConditions inst) (tsConditions ts)\<rparr>) None,
           Fetch IsAPIServerReady] @ rest"
    by (simp add: ReconcileCompliance_Reconcile_def Compliance_statusConditions_def Compliance_ResourceName_def
        Compliance_readiness_def run_defs Let_def)
qed (auto simp: ReconcileAPIServer_Reconcile_def APIServer_statusConditions_def APIServer_ResourceName_def
      run_defs Let_def split: option.splits)

theorem C9_status_conditions_witness:
  "ReconcileAPIServer_Reconcile sampleAPIServerReconciler sampleAPIServerEnv
     \<lparr>reqNamespace = [], reqName = ''apiserver''\<rparr> =
     ([Fetch (GetPrimary ''APIServer''), OnCRFound, Fetch (GetTigeraStatus ''apiserver''),
       StatusUpdate
         (sampleInstance\<lparr>crConditions :=
            [\<lparr>condType = ''Ready'', condStatus = ''True'', condObservedGeneration = 2,
              condReason = ''AllObjectsAvailable'', condMessage = ''All Objects are available''\<rparr>,
             \<lparr>condType = ''Progressing'', condStatus = ''False'', condObservedGeneration = 2,
              condReason = ''NotApplicable'', condMessage = ''Not Applicable''\<rparr>,
             \<lparr>condType = ''Degraded'', condStatus = ''False'', condObservedGeneration = 2,
              condReason = ''NotApplicable'', condMessage = ''Not Applicable''\<rparr>]\<rparr>)
         None],
      Return \<lparr>Requeue = False, RequeueAfter = 0\<rparr> None)
   \<and> \<lparr>condType = ''Ready'', condStatus = ''True'', condObservedGeneration = 2,
       condReason = ''AllObjectsAvailable'', condMessage = ''All Objects are available''\<rparr>
       \<in> set (UpdateStatusCondition [] (tsConditions (sampleTigeraStatus ''apiserver'')) 2)
   \<and> take 5 (fst (ReconcileMonitor_Reconcile sampleMonitorReconciler sampleMonitorEnv
                    \<lparr>reqNamespace = [], reqName = ''monitor''\<rparr>)) =
       [Fetch (GetPrimary ''Monitor''), OnCRFound, Fetch (GetTigeraStatus ''monitor''),
        StatusUpdate
          (sampleInstance\<lparr>crConditions :=
             UpdateStatusCondition2 [] (tsConditions (sampleTigeraStatus ''monitor''))\<rparr>) None,
        Fetch GetInstallation]
   \<and> take 5 (fst (ReconcileCompliance_Reconcile sampleComplianceReconciler sampleComplianceEnv
                    \<lparr>reqNamespace = [], reqName = ''compliance''\<rparr>)) =
       [Fetch (GetPrimary ''Compliance''), OnCRFound, Fetch (GetTigeraStatus ''compliance''),
        StatusUpdate
          (sampleInstance\<lparr>crConditions :=
             UpdateStatusCondition2 [] (tsConditions (sampleTigeraStatus ''compliance''))\<rparr>) None,
        Fetch IsAPIServerReady]"
proof -
  let ?ra = "\<lparr>reqNamespace = [], reqName = ''apiserver''\<rparr>"
  let ?rm = "\<lparr>reqNamespace = [], reqName = ''monitor''\<rparr>"
  let ?rc = "\<lparr>reqNamespace = [], reqName = ''compliance''\<rparr>"
  let ?c = "\<lparr>tscType = ComponentAvailable, tscStatus = ''True'', tscReason = ''AllObjectsAvailable'',
            tscMessage = ''All Objects are available'', tscObservedGeneration = 1\<rparr>"
  note t = C9_status_conditions
  have ha: "asGetAPIServer sampleAPIServerEnv = Inr sampleInstance \<and> reqName ?ra = ''apiserver''
      \<and> reqNamespace ?ra = [] \<and> asGetTigeraStatus sampleAPIServerEnv = Inr (sampleTigeraStatus ''apiserver'')"
    by (simp add: sampleAPIServerEnv_def)
  have hm: "mGetMonitor sampleMonitorEnv = Inr sampleInstance \<and> reqName ?rm = ''monitor''
      \<and> reqNamespace ?rm = [] \<and> mGetTigeraStatus sampleMonitorEnv = Inr (sampleTigeraStatus ''monitor'')
      \<and> mStatusUpdate sampleMonitorEnv
           (sampleInstance\<lparr>crConditions := UpdateStatusCondition2 (crConditions sampleInstance)
              (tsConditions (sampleTigeraStatus ''monitor''))\<rparr>) = None"
    by (simp add: sampleMonitorEnv_def)
  have hc: "cGetCompliance sampleComplianceEnv = Inr sampleInstance \<and> reqName ?rc = ''compliance''
      \<and> reqNamespace ?rc = [] \<and> cGetTigeraStatus sampleComplianceEnv = Inr (sampleTigeraStatus ''compliance'')
      \<and> cStatusUpdate sampleComplianceEnv
           (sampleInstance\<lparr>crConditions := UpdateStatusCondition2 (crConditions sampleInstance)
              (tsConditions (sampleTigeraStatus ''compliance''))\<rparr>) = None"
    by (simp add: sampleComplianceEnv_def)
  have hd: "distinct (map tscType (tsConditions (sampleTigeraStatus ''apiserver'')))
      \<and> ?c \<in> set (tsConditions (sampleTigeraStatus ''apiserver''))"
    by (simp add: sampleTigeraStatus_def)
  have ra: "ReconcileAPIServer_Reconcile sampleAPIServerReconciler sampleAPIServerEnv ?ra =
      ([Fetch (GetPrimary ''APIServer''), OnCRFound, Fetch (GetTigeraStatus ''apiserver''),
        StatusUpdate
          (sampleInstance\<lparr>crConditions := UpdateStatusCondition (crConditions sampleInstance)
             (tsConditions (sampleTigeraStatus ''apiserver'')) (crGeneration sampleInstance)\<rparr>)
          (asStatusUpdate sampleAPIServerEnv
            (sampleInstance\<lparr>crConditions := UpdateStatusCondition (crConditions sampleInstance)
               (tsConditions (sampleTigeraStatus ''apiserver'')) (crGeneration sampleInstance)\<rparr>))],
       Return EmptyResult
         (asStatusUpdate sampleAPIServerEnv
           (sampleInstance\<lparr>crConditions := UpdateStatusCondition (crConditions sampleInstance)
              (tsConditions (sampleTigeraStatus ''apiserver'')) (crGeneration sampleInstance)\<rparr>)))"
    using t [where ea = sampleAPIServerEnv and inst = sampleInstance and req = ?ra
               and ts = "sampleTigeraStatus ''apiserver''" and ra = sampleAPIServerReconciler] ha
    by blast
  have rd: "\<lparr>condType = conditionTypeName (tscType ?c), condStatus = tscStatus ?c, condObservedGeneration = 2,
         condReason = tscReason ?c, condMessage = tscMessage ?c\<rparr>
       \<in> set (UpdateStatusCondition [] (tsConditions (sampleTigeraStatus ''apiserver'')) 2)"
    using t [where cs = "tsConditions (sampleTigeraStatus ''apiserver'')" and c = ?c and g = 2 and old = "[]"] hd
    by blast
  obtain restm where rm: "fst (ReconcileMonitor_Reconcile sampleMonitorReconciler sampleMonitorEnv ?rm) =
      [Fetch (GetPrimary ''Monitor''), OnCRFound, Fetch (GetTigeraStatus ''monitor''),
       StatusUpdate (sampleInstance\<lparr>crConditions := UpdateStatusCondition2 (crConditions sampleInstance)
          (tsConditions (sampleTigeraStatus ''monitor''))\<rparr>) None,
       Fetch GetInstallation] @ restm"
    using t [where em = sampleMonitorEnv and inst = sampleInstance and req = ?rm
               and ts = "sampleTigeraStatus ''monitor''" and rm = sampleMonitorReconciler] hm
    by blast
  obtain restc where rc: "fst (ReconcileCompliance_Reconcile sampleComplianceReconciler sampleComplianceEnv ?rc) =
      [Fetch (GetPrimary ''Compliance''), OnCRFound, Fetch (GetTigeraStatus ''compliance''),
       StatusUpdate (sampleInstance\<lparr>crConditions := UpdateStatusCondition2 (crConditions sampleInstance)
          (tsConditions (sampleTigeraStatus ''compliance''))\<rparr>) None,
       Fetch IsAPIServerReady] @ restc"
    using t [where ec = sampleComplianceEnv and inst = sampleInstance and req = ?rc
               and ts = "sampleTigeraStatus ''compliance''" and rc = sampleComplianceReconciler] hc
    by blast
  show ?thesis
    unfolding ra rm rc using rd
    by (simp add: sampleInstance_def sampleTigeraStatus_def sampleAPIServerEnv_def toCondition_def
        EmptyResult_def)
qed

lemma addWatches_asked:
  "Watch w e \<in> set (fst (addWatches fails ws)) \<Longrightarrow> w \<in> fst ` set ws"
  by (induction ws) (auto split: option.splits prod.splits)

lemma addWatches_registered:
  "snd (addWatches fails ws) = None \<Longrightarrow> registered (fst (addWatches fails ws)) = map fst ws"
  by (induction ws) (auto split: option.splits prod.splits)

lemma APIServer_add_asked:
  "Watch w e \<in> set (fst (APIServer_add N env r)) \<Longrightarrow> w \<in> set (map fst (APIServer_watches N r))"
  by (auto simp: APIServer_add_def split: option.splits dest: addWatches_asked)

lemma APIServer_add_registered:
  "snd (APIServer_add N env r) = None \<Longrightarrow>
   registered (fst (APIServer_add N env r)) = map fst (APIServer_watches N r)"
  by (auto simp: APIServer_add_def addWatches_registered split: option.splits)

lemma APIServer_watches_plain:
  "\<not> rasEnterpriseCRDsExist r \<Longrightarrow>
   map fst (APIServer_watches N r) =
     [WatchKind ''APIServer'', NetworkWatch,
      ConfigMapWatch (wnK8sSvcEndpointConfigMapName N) (wnOperatorNamespace N)]
     @ (if rasAmazonCRDExists r then [WatchKind ''AmazonCloudIntegration''] else [])
     @ [SecretsWatch ''calico-apiserver-certs'' (wnOperatorNamespace N),
        SecretsWatch ''tigera-apiserver-certs'' (wnOperatorNamespace N),
        SecretsWatch (wnPacketCaptureCertSecret N) (wnOperatorNamespace N),
        SecretsWatch (wnCASecretName N) (wnOperatorNamespace N),
        SecretsWatch (wnDexTLSSecretName N) (wnOperatorNamespace N),
        ImageSetWatch, WatchKind ''TigeraStatus'']"
  by (simp add: APIServer_watches_def)

lemma APIServer_watches_enterprise:
  "rasEnterpriseCRDsExist r \<Longrightarrow>
   map fst (APIServer_watches N r) =
     [WatchKind ''APIServer'', NetworkWatch,
      ConfigMapWatch (wnK8sSvcEndpointConfigMapName N) (wnOperatorNamespace N)]
     @ (if rasAmazonCRDExists r then [WatchKind ''AmazonCloudIntegration''] else [])
     @ [WatchKind ''ManagementCluster'', WatchKind ''ManagementClusterConnection'',
        SecretsWatch (wnVoltronTunnelSecretName N) (wnOperatorNamespace N),
        SecretsWatch (wnVoltronTunnelSecretName N) (wnAPIServerNamespaceEnterprise N),
        WatchKind ''Authentication'',
        SecretsWatch ''calico-apiserver-certs'' (wnOperatorNamespace N),
        SecretsWatch ''tigera-apiserver-certs'' (wnOperatorNamespace N),
        SecretsWatch (wnPacketCaptureCertSecret N) (wnOperatorNamespace N),
        SecretsWatch (wnCASecretName N) (wnOperatorNamespace N),
        SecretsWatch (wnDexTLSSecretName N) (wnOperatorNamespace N),
        ImageSetWatch, WatchKind ''TigeraStatus'']"
  by (simp add: APIServer_watches_def)

text \<open>
  C7. With \<open>EnterpriseCRDExists\<close> false, \<open>Add\<close> of the Monitor and of the Compliance
  controller return nil and do nothing: no reconciler, no controller, no goroutine, no
  watch. The APIServer controller asks for a watch on ManagementCluster,
  ManagementClusterConnection, Authentication or the Voltron tunnel secret only when its
  flag \<open>enterpriseCRDsExist\<close> is true, and with the flag true an \<open>add\<close> that returns no
  error has registered all of them. The name of the tunnel secret is a constant of
  package \<open>render\<close>; it is taken to differ from the names of the five secrets that are
  watched whatever the flag says.
\<close>

theorem C7_enterprise_flag:
  "(\<not> EnterpriseCRDExists opts \<longrightarrow> Monitor_Add env opts = ([], None) \<and> Compliance_Add env opts = ([], None))
   \<and> (wnVoltronTunnelSecretName N \<notin> set [''calico-apiserver-certs'', ''tigera-apiserver-certs'',
           wnPacketCaptureCertSecret N, wnCASecretName N, wnDexTLSSecretName N]
        \<longrightarrow> Watch w e \<in> set (fst (APIServer_add N env r)) \<longrightarrow> enterpriseWatch N w
        \<longrightarrow> rasEnterpriseCRDsExist r)
   \<and> (rasEnterpriseCRDsExist r \<and> snd (APIServer_add N env r) = None \<longrightarrow>
        set [WatchKind ''ManagementCluster'', WatchKind ''ManagementClusterConnection'',
             SecretsWatch (wnVoltronTunnelSecretName N) (wnOperatorNamespace N),
             SecretsWatch (wnVoltronTunnelSecretName N) (wnAPIServerNamespaceEnterprise N),
             WatchKind ''Authentication'']
        \<subseteq> set (registered (fst (APIServer_add N env r))))"
proof (intro conjI impI)
  assume names: "wnVoltronTunnelSecretName N \<notin> set [''calico-apiserver-certs'', ''tigera-apiserver-certs'',
           wnPacketCaptureCertSecret N, wnCASecretName N, wnDexTLSSecretName N]"
    and asked: "Watch w e \<in> set (fst (APIServer_add N env r))" and ent: "enterpriseWatch N w"
  show "rasEnterpriseCRDsExist r"
  proof (rule ccontr)
    assume off: "\<not> rasEnterpriseCRDsExist r"
    from APIServer_add_asked [OF asked] have "w \<in> set (map fst (APIServer_watches N r))" .
    then have "\<not> enterpriseWatch N w"
      unfolding APIServer_watches_plain [OF off] using names
      by (cases "rasAmazonCRDExists r") auto
    with ent show False by simp
  qed
next
  assume h: "rasEnterpriseCRDsExist r \<and> snd (APIServer_add N env r) = None"
  then have "registered (fst (APIServer_add N env r)) = map fst (APIServer_watches N r)"
    by (simp add: APIServer_add_registered)
  then show "set [WatchKind ''ManagementCluster'', WatchKind ''ManagementClusterConnection'',
             SecretsWatch (wnVoltronTunnelSecretName N) (wnOperatorNamespace N),
             SecretsWatch (wnVoltronTunnelSecretName N) (wnAPIServerNamespaceEnterprise N),
             WatchKind ''Authentication'']
        \<subseteq> set (registered (fst (APIServer_add N env r)))"
    using h by (simp add: APIServer_watches_enterprise)
qed (simp_all add: Monitor_Add_def Compliance_Add_def)

theorem C7_enterprise_flag_witness:
  "Monitor_Add sampleAddEnv sampleAddOptions = ([], None)
   \<and> Compliance_Add sampleAddEnv sampleAddOptions = ([], None)
   \<and> SecretsWatch ''tigera-management-cluster-connection'' ''tigera-system''
       \<in> set (registered (fst (APIServer_add sampleWatchNames sampleAddEnv sampleAPIServerReconciler)))
   \<and> rasEnterpriseCRDsExist sampleAPIServerReconciler"
proof -
  note t = C7_enterprise_flag
  have off: "\<not> EnterpriseCRDExists sampleAddOptions"
    by (simp add: sampleAddOptions_def)
  have names: "wnVoltronTunnelSecretName sampleWatchNames \<notin> set [''calico-apiserver-certs'',
      ''tigera-apiserver-certs'', wnPacketCaptureCertSecret sampleWatchNames, wnCASecretName sampleWatchNames,
      wnDexTLSSecretName sampleWatchNames]"
    by (simp add: sampleWatchNames_def)
  have ok: "rasEnterpriseCRDsExist sampleAPIServerReconciler
      \<and> snd (APIServer_add sampleWatchNames sampleAddEnv sampleAPIServerReconciler) = None"
    by (simp add: sampleAPIServerReconciler_def sampleAddEnv_def APIServer_add_def APIServer_watches_def)
  have a: "Monitor_Add sampleAddEnv sampleAddOptions = ([], None)
      \<and> Compliance_Add sampleAddEnv sampleAddOptions = ([], None)"
    using t [where opts = sampleAddOptions and env = sampleAddEnv] off by blast
  have b: "set [WatchKind ''ManagementCluster'', WatchKind ''ManagementClusterConnection'',
             SecretsWatch (wnVoltronTunnelSecretName sampleWatchNames) (wnOperatorNamespace sampleWatchNames),
             SecretsWatch (wnVoltronTunnelSecretName sampleWatchNames) (wnAPIServerNamespaceEnterprise sampleWatchNames),
             WatchKind ''Authentication'']
        \<subseteq> set (registered (fst (APIServer_add sampleWatchNames sampleAddEnv sampleAPIServerReconciler)))"
    using t [where N = sampleWatchNames and env = sampleAddEnv and r = sampleAPIServerReconciler] ok by blast
  then have c: "SecretsWatch ''tigera-management-cluster-connection'' ''tigera-system''
       \<in> set (registered (fst (APIServer_add sampleWatchNames sampleAddEnv sampleAPIServerReconciler)))"
    by (simp add: sampleWatchNames_def)
  have "Watch (SecretsWatch ''tigera-management-cluster-connection'' ''tigera-system'') None
       \<in> set (fst (APIServer_add sampleWatchNames sampleAddEnv sampleAPIServerReconciler))"
    by (simp add: sampleAPIServerReconciler_def sampleAddEnv_def sampleWatchNames_def APIServer_add_def
        APIServer_watches_def)
  moreover have "enterpriseWatch sampleWatchNames (SecretsWatch ''tigera-management-cluster-connection'' ''tigera-system'')"
    by (simp add: sampleWatchNames_def)
  ultimately have d: "rasEnterpriseCRDsExist sampleAPIServerReconciler"
    using t [where N = sampleWatchNames and env = sampleAddEnv and r = sampleAPIServerReconciler
               and w = "SecretsWatch ''tigera-management-cluster-connection'' ''tigera-system''" and e = None]
      names by blast
  from a c d show ?thesis by simp
qed

subsection \<open>Rules for the trace invariant\<close>

lemma Inv_alt:
  "Inv avail lic k \<longleftrightarrow>
     InvCore avail lic k \<and> lastCall (fst k) \<noteq> None
     \<and> (\<not> list_ex isApply (fst k) \<longrightarrow> snd k \<noteq> Panic \<longrightarrow> stoppedAtGuard (fst k))"
  by (auto simp: Inv_def InvCore_def)

lemma lastCall_Cons:
  "lastCall es \<noteq> None \<Longrightarrow> lastCall (e # es) = lastCall es"
  by (auto simp: lastCall_def split: list.splits)

lemma lastCall_Cons_some: "\<not> isSetMetaData e \<Longrightarrow> lastCall (e # es) \<noteq> None"
  by (auto simp: lastCall_def split: list.splits)

lemma lastCall_single: "\<not> isSetMetaData e \<Longrightarrow> lastCall [e] = Some e"
  by (simp add: lastCall_def)

lemma lastCall_snoc_meta: "lastCall (es @ [SetMetaData n g]) = lastCall es"
  by (simp add: lastCall_def)

lemma stoppedAtGuard_Cons:
  "lastCall es \<noteq> None \<Longrightarrow> stoppedAtGuard (e # es) = stoppedAtGuard es"
  by (simp add: stoppedAtGuard_def lastCall_Cons)

lemma neutral_cases:
  "neutral lic e \<Longrightarrow>
     \<not> isSetDegraded e \<and> \<not> isApply e \<and> e \<noteq> ClearDegraded \<and> \<not> isWaitingDegraded e
     \<and> \<not> isSetMetaData e \<and> (\<not> lic \<longrightarrow> \<not> isLicenseFetch e)"
  by (cases e) auto

lemma InvCore_emit:
  "neutral lic e \<Longrightarrow> InvCore avail lic k \<Longrightarrow> InvCore avail lic (emit e k)"
  by (drule neutral_cases) (auto simp: InvCore_def emit_def afterClear_def)

lemma Inv_emit:
  assumes n: "neutral lic e" and i: "Inv avail lic k"
  shows "Inv avail lic (emit e k)"
proof -
  from i have c: "InvCore avail lic k" and l: "lastCall (fst k) \<noteq> None"
    and g: "\<not> list_ex isApply (fst k) \<longrightarrow> snd k \<noteq> Panic \<longrightarrow> stoppedAtGuard (fst k)"
    by (simp_all add: Inv_alt)
  have "InvCore avail lic (emit e k)"
    by (rule InvCore_emit [OF n c])
  moreover have "lastCall (fst (emit e k)) \<noteq> None"
    using l by (simp add: emit_def lastCall_Cons)
  moreover have "\<not> list_ex isApply (fst (emit e k)) \<longrightarrow> snd (emit e k) \<noteq> Panic
      \<longrightarrow> stoppedAtGuard (fst (emit e k))"
    using g l neutral_cases [OF n] by (simp add: emit_def stoppedAtGuard_Cons)
  ultimately show ?thesis
    by (simp add: Inv_alt)
qed

lemma Inv_emits:
  "list_all (neutral lic) es \<Longrightarrow> Inv avail lic k \<Longrightarrow> Inv avail lic (emits es k)"
proof (induction es)
  case Nil
  then show ?case by (simp add: emits_def)
next
  case (Cons e es)
  have "emits (e # es) k = emit e (emits es k)"
    by (simp add: emits_def emit_def)
  with Cons show ?case by (simp add: Inv_emit)
qed

lemma Inv_exit:
  "Inv avail lic (emit (SetDegraded r m) (return res err))
     \<longleftrightarrow> (isWaiting r m \<longrightarrow> res = RequeueAfterSeconds 10 \<and> err = None)"
  by (auto simp: Inv_def emit_def return_def lastCall_def stoppedAtGuard_def)

lemma Inv_notFound: "Inv avail lic (emit OnCRNotFound (return res err))"
  by (auto simp: Inv_def emit_def return_def lastCall_def stoppedAtGuard_def)

lemma Inv_statusFetch: "Inv avail lic (emit (Fetch (GetTigeraStatus n)) (return res err))"
  by (auto simp: Inv_def emit_def return_def lastCall_def stoppedAtGuard_def)

lemma Inv_statusUpdate: "Inv avail lic (emit (StatusUpdate i e) (return res err))"
  by (auto simp: Inv_def emit_def return_def lastCall_def stoppedAtGuard_def)

lemma Inv_panic: "neutral lic e \<Longrightarrow> Inv avail lic (emit e panic)"
  by (drule neutral_cases) (auto simp: Inv_def emit_def panic_def lastCall_def split: list.splits)

lemma noApplyAfterDegraded_snoc:
  "\<not> isApply e \<Longrightarrow> noApplyAfterDegraded (es @ [e]) = noApplyAfterDegraded es"
  by (induction es) auto

lemma returnsAtDegraded_snoc:
  "isSetMetaData e \<Longrightarrow> returnsAtDegraded (es @ [e]) = returnsAtDegraded es"
  by (induction es) auto

lemma noCreateAfterApply_snoc:
  "\<not> isCreate e \<Longrightarrow> noCreateAfterApply (es @ [e]) = noCreateAfterApply es"
  by (induction es) auto

lemma afterClear_snoc:
  "ClearDegraded \<in> set es \<Longrightarrow> afterClear (es @ [e]) = afterClear es @ [e]"
  by (simp add: afterClear_def dropWhile_append1)

lemma stoppedAtGuard_snoc_meta: "stoppedAtGuard (es @ [SetMetaData n g]) = stoppedAtGuard es"
  by (simp add: stoppedAtGuard_def lastCall_snoc_meta)

lemma Inv_deferred:
  "Inv avail lic k \<Longrightarrow> Inv avail lic (deferred (SetMetaData n g) k)"
  by (auto simp: Inv_def deferred_def noApplyAfterDegraded_snoc returnsAtDegraded_snoc
      noCreateAfterApply_snoc afterClear_snoc
      lastCall_snoc_meta stoppedAtGuard_snoc_meta)

lemma InvCore_apply:
  "InvCore avail lic k \<Longrightarrow> \<not> list_ex isCreate (fst k) \<Longrightarrow>
   InvCore avail lic (emit (CreateOrUpdateOrDelete c e) k)"
  by (auto simp: InvCore_def emit_def afterClear_def)

lemma InvCore_applyFailed:
  "\<not> isWaiting r m \<Longrightarrow>
   InvCore avail lic (emit (CreateOrUpdateOrDelete c e) (emit (SetDegraded r m) (return res err)))"
  by (auto simp: InvCore_def emit_def return_def)

lemma ApplyComponents_noCreate:
  "\<not> list_ex isCreate (fst k) \<Longrightarrow>
   \<not> list_ex isCreate (fst (ApplyComponents f (\<lambda>err. SetDegraded r (m err)) cs k))"
  by (induction cs) (auto simp: run_defs split: option.splits)

lemma InvCore_ApplyComponents:
  "(\<And>err. \<not> isWaiting r (m err)) \<Longrightarrow> InvCore avail lic k \<Longrightarrow> \<not> list_ex isCreate (fst k) \<Longrightarrow>
   InvCore avail lic (ApplyComponents f (\<lambda>err. SetDegraded r (m err)) cs k)"
  by (induction cs) (auto simp: InvCore_apply InvCore_applyFailed ApplyComponents_noCreate split: option.splits)

lemma ApplyComponents_applies:
  "cs \<noteq> [] \<Longrightarrow> list_ex isApply (fst (ApplyComponents f g cs k))"
  by (cases cs) (auto simp: run_defs split: option.splits)

lemma lastCall_has: "\<not> isSetMetaData e \<Longrightarrow> e \<in> set es \<Longrightarrow> lastCall es \<noteq> None"
  by (auto simp: lastCall_def filter_empty_conv split: list.splits)

lemma ApplyComponents_lastCall:
  "cs \<noteq> [] \<Longrightarrow> lastCall (fst (ApplyComponents f g cs k)) \<noteq> None"
proof (cases cs)
  case Nil
  assume "cs \<noteq> []"
  with Nil show ?thesis by simp
next
  case (Cons c cs')
  have "CreateOrUpdateOrDelete c (f c) \<in> set (fst (ApplyComponents f g cs k))"
    using Cons by (simp add: run_defs split: option.splits)
  then show ?thesis
    by (rule lastCall_has [rotated]) simp
qed

lemma Inv_ApplyComponents:
  "(\<And>err. \<not> isWaiting r (m err)) \<Longrightarrow> InvCore avail lic k \<Longrightarrow> \<not> list_ex isCreate (fst k) \<Longrightarrow> cs \<noteq> [] \<Longrightarrow>
   Inv avail lic (ApplyComponents f (\<lambda>err. SetDegraded r (m err)) cs k)"
  unfolding Inv_alt
  by (simp add: InvCore_ApplyComponents ApplyComponents_applies ApplyComponents_lastCall)

lemmas Inv_rules = Inv_emit Inv_exit Inv_notFound Inv_statusFetch Inv_statusUpdate Inv_panic
  SetDegraded_defs isWaiting_def const_defs Let_def

subsection \<open>The trace invariant of the APIServer controller\<close>

lemma APIServer_finish_core:
  "InvCore (asIsAvailable env) lic (APIServer_finish env inst)"
  by (auto simp: APIServer_finish_def InvCore_def run_defs Let_def afterClear_def split: option.splits)

lemma APIServer_finish_noCreate: "\<not> list_ex isCreate (fst (APIServer_finish env inst))"
  by (auto simp: APIServer_finish_def run_defs Let_def split: option.splits)

lemma Inv_APIServer_statusConditions:
  "Inv avail lic (APIServer_statusConditions env inst)"
  by (simp add: APIServer_statusConditions_def Inv_rules split: sum.split option.split)

lemma Inv_APIServer_amazon:
  "(\<And>a. Inv avail lic (k a)) \<Longrightarrow> Inv avail lic (APIServer_amazon r env k)"
  by (simp add: APIServer_amazon_def Inv_rules split: sum.split option.split)

lemma Inv_APIServer_tunnelSecret:
  "(\<And>a b. Inv avail lic (k a b)) \<Longrightarrow> Inv avail lic (APIServer_tunnelSecret env mc k)"
  by (simp add: APIServer_tunnelSecret_def Inv_rules split: sum.split option.split)

lemma Inv_APIServer_enterpriseData:
  "(\<And>a b c d e. Inv avail lic (k a b c d e)) \<Longrightarrow> Inv avail lic (APIServer_enterpriseData r env v k)"
  by (simp add: APIServer_enterpriseData_def Inv_rules Inv_APIServer_tunnelSecret Inv_APIServer_amazon
      split: sum.split option.split)

lemma Inv_APIServer_packetCapture:
  "(\<And>cs. cs \<noteq> [] \<Longrightarrow> Inv avail lic (k cs)) \<Longrightarrow> components \<noteq> [] \<Longrightarrow>
   Inv avail lic (APIServer_packetCapture r env v network ps components k)"
  by (simp add: APIServer_packetCapture_def Inv_rules split: sum.split option.split)

lemma Inv_APIServer_render:
  "Inv (asIsAvailable env) lic (APIServer_render r env inst v network tls ps mc mcc tunnel pass amazon)"
  by (simp add: APIServer_render_def Inv_rules Inv_APIServer_packetCapture Inv_ApplyComponents
      APIServer_finish_core APIServer_finish_noCreate split: sum.split option.split)

lemma Inv_APIServer:
  "Inv (asIsAvailable env) lic (ReconcileAPIServer_Reconcile r env req)"
  by (simp add: ReconcileAPIServer_Reconcile_def Inv_rules Inv_APIServer_statusConditions
      Inv_APIServer_enterpriseData Inv_APIServer_render split: sum.split option.split prod.split)

subsection \<open>The trace invariant of the Monitor controller\<close>

lemma Monitor_finish_core:
  "InvCore (mIsAvailable env) lic (Monitor_finish env inst)"
  by (auto simp: Monitor_finish_def InvCore_def run_defs Let_def afterClear_def SetDegraded_defs
      isWaiting_def const_defs split: option.splits)

lemma Monitor_finish_noCreate: "\<not> list_ex isCreate (fst (Monitor_finish env inst))"
  by (auto simp: Monitor_finish_def run_defs Let_def SetDegraded_defs split: option.splits)

lemma Monitor_components_nonempty:
  "Monitor_components r install ps secret flag kvc st ct tb incl \<noteq> []"
  by (simp add: Monitor_components_def Let_def)

lemma readAlertmanagerConfigSecret_neutral:
  "list_all (neutral lic) (fst (readAlertmanagerConfigSecret env))"
  by (simp add: readAlertmanagerConfigSecret_def Let_def split: sum.split option.split)

lemma Inv_Monitor_statusConditions:
  "(\<And>i. Inv avail lic (k i)) \<Longrightarrow> Inv avail lic (Monitor_statusConditions env req inst k)"
  by (simp add: Monitor_statusConditions_def Inv_rules split: sum.split option.split)

lemma Inv_Monitor_installation:
  "(\<And>a b c. Inv avail lic (k a b c)) \<Longrightarrow> Inv avail lic (Monitor_installation r env k)"
  by (simp add: Monitor_installation_def Inv_rules split: sum.split option.split prod.split)

lemma Inv_Monitor_trustedCertificates:
  "(\<And>tb. Inv avail lic (k tb)) \<Longrightarrow> Inv avail lic (Monitor_trustedCertificates env names tb0 k)"
  by (induction names arbitrary: tb0) (simp_all add: Inv_rules split: sum.split)

lemma Inv_Monitor_certificates:
  "(\<And>a b c d. Inv avail lic (k a b c d)) \<Longrightarrow> Inv avail lic (Monitor_certificates env k)"
  by (simp add: Monitor_certificates_def Inv_rules Inv_Monitor_trustedCertificates split: sum.split option.split)

lemma Inv_Monitor_authentication:
  "(\<And>a b. Inv avail lic (k a b)) \<Longrightarrow> Inv avail lic (Monitor_authentication env k)"
  by (simp add: Monitor_authentication_def Inv_rules split: sum.split option.split)

lemma Inv_Monitor_networkPolicyGuards:
  "(\<And>a. Inv avail lic (k a)) \<Longrightarrow> Inv avail lic (Monitor_networkPolicyGuards r env mcc cm k)"
  by (simp add: Monitor_networkPolicyGuards_def Inv_rules split: sum.split option.split)

lemma Inv_Monitor_render:
  "Inv (mIsAvailable env) lic (Monitor_render r env inst v install ps kvc st ct tb incl)"
  by (simp add: Monitor_render_def Inv_rules Inv_emits readAlertmanagerConfigSecret_neutral
      Inv_ApplyComponents Monitor_finish_core Monitor_finish_noCreate Monitor_components_nonempty
      split: sum.split option.split prod.split)

lemma Inv_Monitor:
  "Inv (mIsAvailable env) lic (ReconcileMonitor_Reconcile r env req)"
  by (simp add: ReconcileMonitor_Reconcile_def Inv_rules Inv_deferred Inv_Monitor_statusConditions
      Inv_Monitor_installation Inv_Monitor_certificates Inv_Monitor_authentication
      Inv_Monitor_networkPolicyGuards Inv_Monitor_render split: sum.split option.split)

subsection \<open>The trace invariant of the Compliance controller\<close>




















lemma takeWhile_ex_append:
  "list_ex Q (takeWhile P xs) \<Longrightarrow> list_ex Q (takeWhile P (xs @ ys))"
  by (induction xs) (auto split: if_splits)

lemma licenseBeforeApply_emit:
  "\<not> isApply e \<Longrightarrow> licenseBeforeApply (fst k) \<Longrightarrow> licenseBeforeApply (fst (emit e k))"
  by (simp add: licenseBeforeApply_def emit_def)

lemma licenseBeforeApply_fetch: "licenseBeforeApply (fst (emit (Fetch FetchLicenseKey) k))"
  by (simp add: licenseBeforeApply_def emit_def)

lemma licenseBeforeApply_return: "licenseBeforeApply (fst (return res err))"
  by (simp add: licenseBeforeApply_def return_def)

lemma licenseBeforeApply_deferred:
  "licenseBeforeApply (fst k) \<Longrightarrow> licenseBeforeApply (fst (deferred (SetMetaData n g) k))"
  by (auto simp: licenseBeforeApply_def deferred_def takeWhile_ex_append)

lemmas licenseBeforeApply_rules =
  licenseBeforeApply_emit licenseBeforeApply_fetch licenseBeforeApply_return SetDegraded_defs Let_def

lemma licenseBeforeApply_statusConditions:
  "(\<And>i. licenseBeforeApply (fst (k i))) \<Longrightarrow>
   licenseBeforeApply (fst (Compliance_statusConditions env req inst k))"
  by (simp add: Compliance_statusConditions_def licenseBeforeApply_rules split: sum.split option.split)

lemma licenseBeforeApply_readiness:
  "licenseBeforeApply (fst (Compliance_readiness r env k))"
  by (simp add: Compliance_readiness_def licenseBeforeApply_rules split: sum.split option.split)

lemma licenseBeforeApply_Compliance:
  "licenseBeforeApply (fst (ReconcileCompliance_Reconcile rc ec req))"
  by (simp add: ReconcileCompliance_Reconcile_def licenseBeforeApply_rules licenseBeforeApply_deferred
      licenseBeforeApply_statusConditions licenseBeforeApply_readiness split: sum.split option.split)

text \<open>
  C8, as stated, fails. On the sample cluster the APIServer and the Monitor controller
  reconcile to the end without an error and never call \<open>FetchLicenseKey\<close>.
\<close>

theorem C8_counterexample:
  "snd (ReconcileAPIServer_Reconcile sampleAPIServerReconciler sampleAPIServerEnv sampleRequest)
     = Return \<lparr>Requeue = False, RequeueAfter = 0\<rparr> None
   \<and> \<not> list_ex isLicenseFetch
         (fst (ReconcileAPIServer_Reconcile sampleAPIServerReconciler sampleAPIServerEnv sampleRequest))
   \<and> snd (ReconcileMonitor_Reconcile sampleMonitorReconciler sampleMonitorEnv sampleRequest)
     = Return \<lparr>Requeue = False, RequeueAfter = 0\<rparr> None
   \<and> \<not> list_ex isLicenseFetch
         (fst (ReconcileMonitor_Reconcile sampleMonitorReconciler sampleMonitorEnv sampleRequest))"
  by (simp add: APIServer_defs Monitor_defs sample_defs run_defs const_defs SetDegraded_defs Let_def
      EmptyResult_def APIServerNamespace_def ProjectCalicoApiServerTLSSecretName_def DeepEqual_def)

text \<open>
  C8, amended. Of the three controllers only the Compliance controller fetches the
  LicenseKey during a reconcile. \<open>Reconcile\<close> of the APIServer and of the Monitor
  controller never call \<open>FetchLicenseKey\<close>. \<open>Reconcile\<close> of the Compliance controller
  calls it as soon as its readiness guards have passed (the API server is ready, the
  NetworkPolicy watches are established, the allow-tigera tier exists, the LicenseKey API
  is ready), and whenever it applies a component it has called it before the first one.
\<close>

theorem C8_license_fetch:
  "\<not> list_ex isLicenseFetch (fst (ReconcileAPIServer_Reconcile ra ea req))
   \<and> \<not> list_ex isLicenseFetch (fst (ReconcileMonitor_Reconcile rm em req))
   \<and> licenseBeforeApply (fst (ReconcileCompliance_Reconcile rc ec req))
   \<and> (cIsAPIServerReady ec \<and> rcPolicyWatchesReady rc \<and> cGetTier ec = None \<and> rcLicenseAPIReady rc \<longrightarrow>
        (\<exists>rest. fst (Compliance_readiness rc ec kc) =
           [Fetch IsAPIServerReady, Fetch (GetTier TigeraComponentTierName), Fetch FetchLicenseKey] @ rest))"
proof (intro conjI)
  show "\<not> list_ex isLicenseFetch (fst (ReconcileAPIServer_Reconcile ra ea req))"
    using Inv_APIServer [of ea False ra req] by (simp add: Inv_def)
  show "\<not> list_ex isLicenseFetch (fst (ReconcileMonitor_Reconcile rm em req))"
    using Inv_Monitor [of em False rm req] by (simp add: Inv_def)
  show "licenseBeforeApply (fst (ReconcileCompliance_Reconcile rc ec req))"
    by (rule licenseBeforeApply_Compliance)
  show "cIsAPIServerReady ec \<and> rcPolicyWatchesReady rc \<and> cGetTier ec = None \<and> rcLicenseAPIReady rc \<longrightarrow>
        (\<exists>rest. fst (Compliance_readiness rc ec kc) =
           [Fetch IsAPIServerReady, Fetch (GetTier TigeraComponentTierName), Fetch FetchLicenseKey] @ rest)"
    by (simp add: Compliance_readiness_def run_defs)
qed

theorem C8_license_fetch_witness:
  "list_ex isLicenseFetch
     (takeWhile (\<lambda>e. \<not> isApply e)
        (fst (ReconcileCompliance_Reconcile sampleComplianceReconciler sampleComplianceEnv sampleRequest)))
   \<and> take 3 (fst (Compliance_readiness sampleComplianceReconciler sampleComplianceEnv
                    (\<lambda>license. return EmptyResult None))) =
       [Fetch IsAPIServerReady, Fetch (GetTier TigeraComponentTierName), Fetch FetchLicenseKey]"
proof -
  let ?run = "ReconcileCompliance_Reconcile sampleComplianceReconciler sampleComplianceEnv sampleRequest"
  have a: "list_ex isApply (fst ?run)"
    by (simp add: Compliance_defs sample_defs run_defs const_defs SetDegraded_defs Let_def)
  have g: "cIsAPIServerReady sampleComplianceEnv \<and> rcPolicyWatchesReady sampleComplianceReconciler
      \<and> cGetTier sampleComplianceEnv = None \<and> rcLicenseAPIReady sampleComplianceReconciler"
    by (simp add: sampleComplianceEnv_def sampleComplianceReconciler_def)
  have "list_ex isLicenseFetch (takeWhile (\<lambda>e. \<not> isApply e) (fst ?run))"
    using C8_license_fetch [where rc = sampleComplianceReconciler and ec = sampleComplianceEnv and req = sampleRequest] a
    unfolding licenseBeforeApply_def by blast
  moreover obtain rest where
    "fst (Compliance_readiness sampleComplianceReconciler sampleComplianceEnv (\<lambda>license. return EmptyResult None)) =
       [Fetch IsAPIServerReady, Fetch (GetTier TigeraComponentTierName), Fetch FetchLicenseKey] @ rest"
    using C8_license_fetch
      [where rc = sampleComplianceReconciler and ec = sampleComplianceEnv
         and kc = "\<lambda>license. return EmptyResult None"] g
    by blast
  ultimately show ?thesis
    by simp
qed

subsection \<open>Applying components to the object store\<close>
















end
